theory Spec2Isabelle
  imports Complex_Main "HOL-Library.AList"
begin

section \<open>The charge point engine of ocpp-cp-simulator\<close>

text \<open>
  A shallow embedding of the class \<open>ChargePoint\<close> (the station engine). The engine is
  single threaded: every public method and every timer callback runs to completion, so
  each one is a function from the state before to the state after. Everything the engine
  hands to a collaborator (the message handler, the web socket, the logger, a registered
  callback) is appended to a trace, in the order of the calls.
\<close>

subsection \<open>Data model\<close>

text \<open>
  Modelled from the spec: the enumeration \<open>OCPPStatus\<close> and the type
  \<open>OCPPAvailability\<close> of \<open>OcppTypes\<close>, which is not part of the sources at hand.
\<close>

datatype OCPPStatus =
  Available | Preparing | Charging | SuspendedEVSE | SuspendedEV
  | Finishing | Reserved | Unavailable | Faulted

datatype OCPPAvailability = Operative | Inoperative

datatype MeterValueFormat = Detailed | Simple

text \<open>
  Modelled from the spec: the value object \<open>Transaction\<close>. Times are the readings of
  the clock (\<open>new Date()\<close>), passed to the operations as an argument.
\<close>

record Transaction =
  t_id :: int
  t_connectorId :: int
  t_tagId :: string
  t_meterStart :: int
  t_meterStop :: "int option"
  t_startTime :: nat
  t_stopTime :: "nat option"
  t_meterSent :: bool

text \<open>
  Modelled from the spec: the class \<open>Connector\<close>, a connector's id, status,
  availability, meter reading, transaction and transaction id. A new connector is
  \<open>Unavailable\<close>, \<open>Operative\<close>, reads 0 and has no transaction. An assignment to
  one of its properties stores the value; what the setters of the class do besides
  (the subscribers of a connector) is not modelled.
\<close>

record Connector =
  c_id :: int
  c_status :: OCPPStatus
  c_availability :: OCPPAvailability
  c_meterValue :: int
  c_transaction :: "Transaction option"
  c_transactionId :: "int option"

definition new_Connector :: "int \<Rightarrow> Connector" where
  "new_Connector i =
     \<lparr>c_id = i, c_status = Unavailable, c_availability = Operative, c_meterValue = 0,
      c_transaction = None, c_transactionId = None\<rparr>"

record AutoMeterValueSetting =
  ams_enabled :: bool
  ams_interval :: int
  ams_value :: int

text \<open>One element of \<open>sampledValue\<close>; the optional fields are absent where the source omits them.\<close>

record SampledValue =
  sv_unit :: "string option"
  sv_phase :: "string option"
  sv_value :: string
  sv_format :: "string option"
  sv_location :: "string option"
  sv_measurand :: string

record MeterValueData =
  mv_timestamp :: nat
  mv_sampledValue :: "SampledValue list"

text \<open>A registered callback is known by its identity only; calling it is an event of the trace.\<close>

datatype callback = Callback nat

text \<open>What a live interval timer runs when it fires.\<close>

datatype timer_task = HeartbeatTask | AutoMeterTask int int

record timer =
  tm_delay :: int
  tm_task :: timer_task

text \<open>
  Modelled from the spec: the message handler, the web socket and the logger, which the
  engine calls without reading a result. A call is an event, and so is a call of a
  registered callback; a callback does not call back into the engine. The last event
  records an assignment to the status of a connector, with the id of the connector.
\<close>

datatype event =
  LogInfo string
  | LogError string
  | WsConnect
  | WsDisconnect
  | SendBootNotification string
  | SendAuthorize string
  | SendStartTransaction Transaction int
  | SendStopTransaction Transaction int
  | SendHeartbeat
  | SendStatusNotification int OCPPStatus
  | SendMeterValue "int option" int MeterValueData
  | StatusChangeCallback callback OCPPStatus
  | ErrorCallback "callback option" string
  | AvailabilityChangeCallback callback OCPPAvailability
  | ConnectorStatusWrite int OCPPStatus

datatype error = TypeError

text \<open>
  The fields of \<open>ChargePoint\<close>, then the part of the environment the engine acts on:
  the interval timers that are live (\<open>setInterval\<close> hands out a fresh positive handle,
  \<open>clearInterval\<close> removes the timer) and the trace. The map \<open>_connectors\<close> keeps
  its insertion order, which \<open>forEach\<close> follows, so it is an association list; each
  entry is the connector object itself.
\<close>

record ChargePoint =
  cp_id :: string
  cp_bootNotification :: string
  cp_connectors :: "(int \<times> Connector) list"
  cp_wsUrl :: string
  cp_autoMeterValueSetting :: "AutoMeterValueSetting option"
  cp_autoMeterValueIntervals :: "int \<rightharpoonup> nat"
  cp_meterValueFormat :: MeterValueFormat
  cp_status :: OCPPStatus
  cp_error :: string
  cp_errorCallback :: "callback option"
  cp_heartbeat :: "nat option"
  cp_statusChangeCallback :: "callback option"
  cp_availabilityChangeCallbacks :: "int \<rightharpoonup> callback"
  timers :: "(nat \<times> timer) list"
  nextTimer :: nat
  trace :: "event list"

subsection \<open>Numbers as text\<close>

text \<open>
  Numbers are modelled as integers: connector ids, handles, codes, and the meter value,
  which the specification gives as a whole number of Wh. \<open>toString\<close> is the decimal text
  JavaScript gives an integer number in a template string or by \<open>toString()\<close>.
\<close>

definition digit_char :: "nat \<Rightarrow> char" where
  "digit_char d = char_of (48 + d)"

fun toString_nat :: "nat \<Rightarrow> string" where
  "toString_nat n =
     (if n < 10 then [digit_char n] else toString_nat (n div 10) @ [digit_char (n mod 10)])"

declare toString_nat.simps [simp del]

definition toString :: "int \<Rightarrow> string" where
  "toString i = (if i < 0 then CHR ''-'' # toString_nat (nat (- i)) else toString_nat (nat i))"

subsection \<open>The environment: trace and timers\<close>

definition emit :: "event \<Rightarrow> ChargePoint \<Rightarrow> ChargePoint" where
  "emit e s = s\<lparr>trace := trace s @ [e]\<rparr>"

definition setInterval :: "int \<Rightarrow> timer_task \<Rightarrow> ChargePoint \<Rightarrow> nat \<times> ChargePoint" where
  "setInterval delay task s =
     (nextTimer s,
      s\<lparr>timers := timers s @ [(nextTimer s, \<lparr>tm_delay = delay, tm_task = task\<rparr>)],
        nextTimer := Suc (nextTimer s)\<rparr>)"

definition clearInterval :: "nat \<Rightarrow> ChargePoint \<Rightarrow> ChargePoint" where
  "clearInterval h s = s\<lparr>timers := filter (\<lambda>p. fst p \<noteq> h) (timers s)\<rparr>"

subsection \<open>Construction, getters and setters\<close>

definition constructor ::
  "string \<Rightarrow> string \<Rightarrow> int \<Rightarrow> string \<Rightarrow> AutoMeterValueSetting option \<Rightarrow> ChargePoint" where
  "constructor ident bootNotification connectorCount wsUrl autoMeterValueSetting =
     \<lparr>cp_id = ident,
      cp_bootNotification = bootNotification,
      cp_connectors = map (\<lambda>i. (i, new_Connector i)) [1..connectorCount],
      cp_wsUrl = wsUrl,
      cp_autoMeterValueSetting = autoMeterValueSetting,
      cp_autoMeterValueIntervals = Map.empty,
      cp_meterValueFormat = Detailed,
      cp_status = Unavailable,
      cp_error = [],
      cp_errorCallback = None,
      cp_heartbeat = None,
      cp_statusChangeCallback = None,
      cp_availabilityChangeCallbacks = Map.empty,
      timers = [],
      nextTimer = 1,
      trace = []\<rparr>"

definition getConnector :: "ChargePoint \<Rightarrow> int \<Rightarrow> Connector option" where
  "getConnector s connectorId = map_of (cp_connectors s) connectorId"

definition connectorNumber :: "ChargePoint \<Rightarrow> nat" where
  "connectorNumber s = length (cp_connectors s)"

text \<open>The setter of \<open>error\<close> stores the text and calls the error callback, always.\<close>

definition set_error :: "string \<Rightarrow> ChargePoint \<Rightarrow> ChargePoint" where
  "set_error err s = emit (ErrorCallback (cp_errorCallback s) err) (s\<lparr>cp_error := err\<rparr>)"

text \<open>The setter of \<open>status\<close> stores the status and calls the callback when one is set.\<close>

definition set_status :: "OCPPStatus \<Rightarrow> ChargePoint \<Rightarrow> ChargePoint" where
  "set_status st s =
     (let s1 = s\<lparr>cp_status := st\<rparr>
      in case cp_statusChangeCallback s1 of
           None \<Rightarrow> s1
         | Some cb \<Rightarrow> emit (StatusChangeCallback cb st) s1)"

definition set_errorCallback :: "callback \<Rightarrow> ChargePoint \<Rightarrow> ChargePoint" where
  "set_errorCallback cb s = s\<lparr>cp_errorCallback := Some cb\<rparr>"

definition set_statusChangeCallback :: "callback \<Rightarrow> ChargePoint \<Rightarrow> ChargePoint" where
  "set_statusChangeCallback cb s = s\<lparr>cp_statusChangeCallback := Some cb\<rparr>"

definition setAvailabilityChangeCallback :: "int \<Rightarrow> callback \<Rightarrow> ChargePoint \<Rightarrow> ChargePoint" where
  "setAvailabilityChangeCallback connectorId cb s =
     s\<lparr>cp_availabilityChangeCallbacks := (cp_availabilityChangeCallbacks s)(connectorId \<mapsto> cb)\<rparr>"

text \<open>
  A write to a field of the connector object stored under a key. The write to
  \<open>status\<close> is recorded in the trace, so that the writes of an operation can be counted;
  it is only used with the key of an object at hand.
\<close>

definition modify_connector :: "int \<Rightarrow> (Connector \<Rightarrow> Connector) \<Rightarrow> ChargePoint \<Rightarrow> ChargePoint" where
  "modify_connector k f s = s\<lparr>cp_connectors := AList.map_entry k f (cp_connectors s)\<rparr>"

definition write_status :: "int \<Rightarrow> OCPPStatus \<Rightarrow> ChargePoint \<Rightarrow> ChargePoint" where
  "write_status k st s =
     (case getConnector s k of
        None \<Rightarrow> s
      | Some c \<Rightarrow> emit (ConnectorStatusWrite (c_id c) st) (modify_connector k (\<lambda>c. c\<lparr>c_status := st\<rparr>) s))"

subsection \<open>Status propagation\<close>

definition not_found :: "int \<Rightarrow> string" where
  "not_found connectorId = ''Connector '' @ toString connectorId @ '' not found''"

definition updateConnectorStatus :: "ChargePoint \<Rightarrow> int \<Rightarrow> OCPPStatus \<Rightarrow> ChargePoint" where
  "updateConnectorStatus s connectorId newStatus =
     (case getConnector s connectorId of
        Some connector \<Rightarrow>
          emit (SendStatusNotification connectorId newStatus)
            (write_status connectorId newStatus s)
      | None \<Rightarrow> emit (LogError (not_found connectorId)) s)"

text \<open>
  The inner loop of \<open>updateAllConnectorsStatus\<close>: it runs over \<open>this.connectors\<close>, a
  copy of the map holding the same connector objects, and writes the status of each.
\<close>

definition write_all_status :: "OCPPStatus \<Rightarrow> ChargePoint \<Rightarrow> ChargePoint" where
  "write_all_status newStatus s =
     fold (\<lambda>(k, connector) s'. write_status k newStatus s') (cp_connectors s) s"

text \<open>
  The outer loop: for every connector of the map, a write of its status, the inner
  loop, then the status notification with the connector's own id.
\<close>

definition updateAllConnectorsStatus :: "ChargePoint \<Rightarrow> OCPPStatus \<Rightarrow> ChargePoint" where
  "updateAllConnectorsStatus s newStatus =
     fold (\<lambda>(k, connector) s'.
             emit (SendStatusNotification (c_id connector) newStatus)
               (write_all_status newStatus (write_status k newStatus s')))
          (cp_connectors s) s"

text \<open>
  The result is the returned boolean and the state. The callback is looked up under the
  connector id and called when there is one.
\<close>

definition updateConnectorAvailability ::
  "ChargePoint \<Rightarrow> int \<Rightarrow> OCPPAvailability \<Rightarrow> bool \<times> ChargePoint" where
  "updateConnectorAvailability s connectorId newAvailability =
     (case getConnector s connectorId of
        None \<Rightarrow> (False, emit (LogError (not_found connectorId)) s)
      | Some connector \<Rightarrow>
          (let s1 = modify_connector connectorId (\<lambda>c. c\<lparr>c_availability := newAvailability\<rparr>) s;
               s2 = (case newAvailability of
                       Inoperative \<Rightarrow> updateConnectorStatus s1 connectorId Unavailable
                     | Operative \<Rightarrow> updateConnectorStatus s1 connectorId Available)
           in case cp_availabilityChangeCallbacks s2 connectorId of
                Some cb \<Rightarrow> (True, emit (AvailabilityChangeCallback cb newAvailability) s2)
              | None \<Rightarrow> (True, s2)))"

subsection \<open>Connection life cycle\<close>

text \<open>
  \<open>connect\<close> hands the transport two callbacks. The transport calls the first, \<open>boot\<close>,
  when the connection opens and the second, \<open>onClose\<close>, with the code and the reason of
  the close event.
\<close>

definition boot :: "ChargePoint \<Rightarrow> ChargePoint" where
  "boot s =
     (let s1 = emit (SendBootNotification (cp_bootNotification s)) s;
          s2 = set_status Available s1;
          s3 = updateAllConnectorsStatus s2 Available
      in set_error [] s3)"

definition closed_message :: "int \<Rightarrow> string \<Rightarrow> string" where
  "closed_message code reason =
     ''WebSocket closed code: '' @ toString code @ '' reason: '' @ reason"

definition onClose :: "ChargePoint \<Rightarrow> int \<Rightarrow> string \<Rightarrow> ChargePoint" where
  "onClose s code reason =
     (let s1 = set_status Unavailable s;
          s2 = updateAllConnectorsStatus s1 Unavailable;
          s3 = emit (LogError (closed_message code reason)) s2
      in if code \<noteq> 1005 then set_error (closed_message code reason) s3 else s3)"

definition connect :: "ChargePoint \<Rightarrow> ChargePoint" where
  "connect s = emit WsConnect s"

definition disconnect :: "ChargePoint \<Rightarrow> ChargePoint" where
  "disconnect s =
     (let s1 = emit (LogInfo ''Disconnecting from WebSocket'') s;
          s2 = s1\<lparr>cp_status := Unavailable\<rparr>
      in emit WsDisconnect s2)"

definition reset :: "ChargePoint \<Rightarrow> ChargePoint" where
  "reset s = connect (disconnect s)"

definition authorize :: "ChargePoint \<Rightarrow> string \<Rightarrow> ChargePoint" where
  "authorize s tagId = emit (SendAuthorize tagId) s"

subsection \<open>Periodic scheduling\<close>

definition sendHeartbeat :: "ChargePoint \<Rightarrow> ChargePoint" where
  "sendHeartbeat s = emit SendHeartbeat s"

definition startHeartbeat :: "ChargePoint \<Rightarrow> int \<Rightarrow> ChargePoint" where
  "startHeartbeat s period =
     (let s1 = emit (LogInfo (''Setting heartbeat period to '' @ toString period @ ''s'')) s;
          s2 = (case cp_heartbeat s1 of
                  Some h \<Rightarrow> if h \<noteq> 0 then clearInterval h s1 else s1
                | None \<Rightarrow> s1);
          (h, s3) = setInterval (period * 1000) HeartbeatTask s2
      in s3\<lparr>cp_heartbeat := Some h\<rparr>)"

definition stopHeartbeat :: "ChargePoint \<Rightarrow> ChargePoint" where
  "stopHeartbeat s =
     (let s1 = emit (LogInfo ''Stopping heartbeat'') s
      in case cp_heartbeat s1 of
           Some h \<Rightarrow> if h \<noteq> 0 then clearInterval h s1 else s1
         | None \<Rightarrow> s1)"

text \<open>
  \<open>startAutoMeterValue\<close> creates the timer and stores its handle under the connector
  id. The timer's callback is \<open>autoMeterValueTick\<close> below, with the connector id and
  the step it closes over.
\<close>

definition startAutoMeterValue :: "ChargePoint \<Rightarrow> int \<Rightarrow> int \<Rightarrow> int \<Rightarrow> ChargePoint" where
  "startAutoMeterValue s connectorId intervalSec val =
     (let (intervalNum, s1) = setInterval (intervalSec * 1000) (AutoMeterTask connectorId val) s
      in s1\<lparr>cp_autoMeterValueIntervals :=
               (cp_autoMeterValueIntervals s1)(connectorId \<mapsto> intervalNum)\<rparr>)"

definition stopAutoMeterValue :: "ChargePoint \<Rightarrow> int \<Rightarrow> ChargePoint" where
  "stopAutoMeterValue s connectorId =
     (case cp_autoMeterValueIntervals s connectorId of
        Some intervalNum \<Rightarrow>
          if intervalNum \<noteq> 0
          then (clearInterval intervalNum s)
                 \<lparr>cp_autoMeterValueIntervals := (cp_autoMeterValueIntervals s)(connectorId := None)\<rparr>
          else s
      | None \<Rightarrow> s)"

subsection \<open>Transactions\<close>

text \<open>
  \<open>stopTransaction\<close> and \<open>cleanTransaction\<close> take a connector id or a connector
  object. The object is one of those the engine holds, named here by the key it is stored
  under: \<open>ConnectorObject k\<close> is what \<open>getConnector(k)\<close> returns. Where that is
  \<open>undefined\<close>, reading its \<open>id\<close> throws.
\<close>

datatype connector_arg = ConnectorId int | ConnectorObject int

definition startTransaction :: "ChargePoint \<Rightarrow> nat \<Rightarrow> string \<Rightarrow> int \<Rightarrow> ChargePoint" where
  "startTransaction s now tagId connectorId =
     (case getConnector s connectorId of
        Some connector \<Rightarrow>
          (let transaction =
                 \<lparr>t_id = 0, t_connectorId = connectorId, t_tagId = tagId, t_meterStart = 0,
                  t_meterStop = None, t_startTime = now, t_stopTime = None,
                  t_meterSent = False\<rparr>;
               s1 = modify_connector connectorId (\<lambda>c. c\<lparr>c_transaction := Some transaction\<rparr>) s;
               s2 = emit (SendStartTransaction transaction connectorId) s1;
               s3 = updateConnectorStatus s2 connectorId Preparing
           in case cp_autoMeterValueSetting s3 of
                Some a \<Rightarrow>
                  if ams_interval a \<noteq> 0 \<and> ams_value a \<noteq> 0
                  then startAutoMeterValue s3 connectorId (ams_interval a) (ams_value a)
                  else s3
              | None \<Rightarrow> s3)
      | None \<Rightarrow> emit (LogError (not_found connectorId)) s)"

text \<open>
  The body of \<open>cleanTransaction\<close> once its argument is resolved to the connector id
  and to the key of the object whose transaction is read.
\<close>

definition clean_resolved :: "ChargePoint \<Rightarrow> int \<Rightarrow> int \<Rightarrow> ChargePoint" where
  "clean_resolved s connectorId k =
     (let s1 = modify_connector k
                 (\<lambda>c. c\<lparr>c_transaction :=
                          map_option (\<lambda>t. t\<lparr>t_meterSent := False\<rparr>) (c_transaction c)\<rparr>) s;
          s2 = updateConnectorStatus s1 connectorId Finishing
      in case cp_autoMeterValueSetting s2 of
           Some a \<Rightarrow> stopAutoMeterValue s2 connectorId
         | None \<Rightarrow> s2)"

definition cleanTransaction :: "ChargePoint \<Rightarrow> connector_arg \<Rightarrow> error + ChargePoint" where
  "cleanTransaction s connector =
     (case connector of
        ConnectorId n \<Rightarrow> Inr (clean_resolved s n n)
      | ConnectorObject k \<Rightarrow>
          (case getConnector s k of
             None \<Rightarrow> Inl TypeError
           | Some c \<Rightarrow> Inr (clean_resolved s (c_id c) k)))"

text \<open>
  The body of \<open>stopTransaction\<close> once its argument is resolved to \<open>connId\<close> and
  \<open>connector\<close>: the connector object with the key it is stored under, or nothing. The
  writes to \<open>connector.transaction!\<close> throw when the connector has no transaction.
\<close>

definition stop_resolved ::
  "ChargePoint \<Rightarrow> nat \<Rightarrow> int \<Rightarrow> (int \<times> Connector) option \<Rightarrow> error + ChargePoint" where
  "stop_resolved s now connId connector =
     (case connector of
        Some (k, c) \<Rightarrow>
          (case c_transaction c of
             None \<Rightarrow> Inl TypeError
           | Some t \<Rightarrow>
               (let t1 = t\<lparr>t_stopTime := Some now\<rparr>;
                    t2 = t1\<lparr>t_meterStop := Some (c_meterValue c)\<rparr>;
                    s1 = modify_connector k (\<lambda>c. c\<lparr>c_transaction := Some t2\<rparr>) s;
                    s2 = emit (SendStopTransaction t2 connId) s1
                in case cleanTransaction s2 (ConnectorObject k) of
                     Inl e \<Rightarrow> Inl e
                   | Inr s3 \<Rightarrow> Inr (updateConnectorStatus s3 connId Available)))
      | None \<Rightarrow>
          (let s1 = emit (LogError (''Connector for id '' @ toString connId @ '' not found'')) s
           in Inr (updateConnectorStatus s1 connId Available)))"

definition stopTransaction :: "ChargePoint \<Rightarrow> nat \<Rightarrow> connector_arg \<Rightarrow> error + ChargePoint" where
  "stopTransaction s now connectorId =
     (case connectorId of
        ConnectorId n \<Rightarrow>
          stop_resolved s now n (map_option (\<lambda>c. (n, c)) (getConnector s n))
      | ConnectorObject k \<Rightarrow>
          (case getConnector s k of
             None \<Rightarrow> Inl TypeError
           | Some c \<Rightarrow> stop_resolved s now (c_id c) (Some (k, c))))"

subsection \<open>Telemetry\<close>

text \<open>
  \<open>toString_div1000 m\<close> is the text of \<open>(m / 1000).toString()\<close> for an integer
  \<open>m\<close>: the whole part, then, unless the division is exact, a point and the thousandths
  without their trailing zeros. The floating point quotient prints as this exact decimal
  as long as \<open>m\<close> has at most 15 digits.
\<close>

definition strip_zeros :: "string \<Rightarrow> string" where
  "strip_zeros ds = rev (dropWhile (\<lambda>c. c = CHR ''0'') (rev ds))"

definition thousandths :: "nat \<Rightarrow> string" where
  "thousandths r = [digit_char (r div 100), digit_char (r div 10 mod 10), digit_char (r mod 10)]"

definition toString_div1000 :: "int \<Rightarrow> string" where
  "toString_div1000 m =
     (let a = nat \<bar>m\<bar>;
          body = toString_nat (a div 1000) @
                 (if a mod 1000 = 0 then [] else CHR ''.'' # strip_zeros (thousandths (a mod 1000)))
      in if m < 0 then CHR ''-'' # body else body)"

definition setMeterValueFormat :: "ChargePoint \<Rightarrow> MeterValueFormat \<Rightarrow> ChargePoint" where
  "setMeterValueFormat s format = s\<lparr>cp_meterValueFormat := format\<rparr>"

definition getMeterValueFormat :: "ChargePoint \<Rightarrow> MeterValueFormat" where
  "getMeterValueFormat s = cp_meterValueFormat s"

definition raw :: "string option \<Rightarrow> string \<Rightarrow> string \<Rightarrow> SampledValue" where
  "raw u v m =
     \<lparr>sv_unit = u, sv_phase = None, sv_value = v, sv_format = Some ''Raw'',
      sv_location = None, sv_measurand = m\<rparr>"

definition located :: "string \<Rightarrow> string option \<Rightarrow> string \<Rightarrow> string \<Rightarrow> string \<Rightarrow> SampledValue" where
  "located u p v l m =
     \<lparr>sv_unit = Some u, sv_phase = p, sv_value = v, sv_format = None,
      sv_location = Some l, sv_measurand = m\<rparr>"

definition generateDetailedMeterValues :: "ChargePoint \<Rightarrow> nat \<Rightarrow> int \<Rightarrow> MeterValueData" where
  "generateDetailedMeterValues s now meterValue =
     (if cp_meterValueFormat s = Simple
      then \<lparr>mv_timestamp = now,
            mv_sampledValue =
              [raw (Some ''kWh'') (toString_div1000 meterValue) ''Energy.Active.Import.Register'',
               raw (Some ''kW'') ''26.4'' ''Power.Active.Import'',
               raw (Some ''Percent'') ''66'' ''SoC'',
               raw (Some ''Celcius'') ''45'' ''Temperature'',
               raw (Some ''A'') ''79.89'' ''Current.Import'',
               raw None ''0'' ''RPM'',
               raw (Some ''V'') ''330.1'' ''Voltage'']\<rparr>
      else \<lparr>mv_timestamp = now,
            mv_sampledValue =
              [located ''V'' (Some ''L1'') ''236.7'' ''Outlet'' ''Voltage'',
               located ''V'' (Some ''L2'') ''235.6'' ''Outlet'' ''Voltage'',
               located ''V'' (Some ''L3'') ''236.7'' ''Outlet'' ''Voltage'',
               located ''A'' (Some ''L1'') ''0.00'' ''Outlet'' ''Current.Import'',
               located ''A'' (Some ''L2'') ''0.00'' ''Outlet'' ''Current.Import'',
               located ''A'' (Some ''L3'') ''0.00'' ''Outlet'' ''Current.Import'',
               located ''W'' None ''2000'' ''Outlet'' ''Power.Active.Import'',
               located ''Percent'' None ''10'' ''EV'' ''SoC'',
               located ''W'' None ''22687'' ''Outlet'' ''Power.Offered'',
               located ''Wh'' None (toString meterValue) ''Outlet''
                 ''Energy.Active.Import.Register'']\<rparr>)"

definition setMeterValue :: "ChargePoint \<Rightarrow> int \<Rightarrow> int \<Rightarrow> ChargePoint" where
  "setMeterValue s connectorId meterValue =
     (case getConnector s connectorId of
        Some connector \<Rightarrow> modify_connector connectorId (\<lambda>c. c\<lparr>c_meterValue := meterValue\<rparr>) s
      | None \<Rightarrow> emit (LogError (not_found connectorId)) s)"

definition sendDetailedMeterValue :: "ChargePoint \<Rightarrow> int \<Rightarrow> MeterValueData \<Rightarrow> ChargePoint" where
  "sendDetailedMeterValue s connectorId meterValueData =
     (case getConnector s connectorId of
        Some connector \<Rightarrow>
          emit (SendMeterValue (map_option t_id (c_transaction connector)) connectorId
                  meterValueData) s
      | None \<Rightarrow> emit (LogError (not_found connectorId)) s)"

definition sendMeterValue :: "ChargePoint \<Rightarrow> nat \<Rightarrow> int \<Rightarrow> ChargePoint" where
  "sendMeterValue s now connectorId =
     (case getConnector s connectorId of
        Some connector \<Rightarrow>
          sendDetailedMeterValue s connectorId
            (generateDetailedMeterValues s now (c_meterValue connector))
      | None \<Rightarrow> emit (LogError (not_found connectorId)) s)"

definition sendCurrentDetailedMeterValue :: "ChargePoint \<Rightarrow> nat \<Rightarrow> int \<Rightarrow> ChargePoint" where
  "sendCurrentDetailedMeterValue s now connectorId =
     (case getConnector s connectorId of
        Some connector \<Rightarrow>
          sendDetailedMeterValue s connectorId
            (generateDetailedMeterValues s now (c_meterValue connector))
      | None \<Rightarrow> emit (LogError (not_found connectorId)) s)"

text \<open>
  The callback of an auto-telemetry timer. \<open>connector\<close> is the object, so the reading
  passed to the generator is the one \<open>setMeterValue\<close> has just stored.
\<close>

definition autoMeterValueTick :: "ChargePoint \<Rightarrow> nat \<Rightarrow> int \<Rightarrow> int \<Rightarrow> ChargePoint" where
  "autoMeterValueTick s now connectorId val =
     (case getConnector s connectorId of
        Some connector \<Rightarrow>
          (let s1 = setMeterValue s connectorId (c_meterValue connector + val)
           in case getConnector s1 connectorId of
                Some connector' \<Rightarrow>
                  sendDetailedMeterValue s1 connectorId
                    (generateDetailedMeterValues s1 now (c_meterValue connector'))
              | None \<Rightarrow> s1)
      | None \<Rightarrow> s)"

text \<open>A timer fires only while it is live; a cleared handle runs nothing.\<close>

definition fireTimer :: "ChargePoint \<Rightarrow> nat \<Rightarrow> nat \<Rightarrow> ChargePoint" where
  "fireTimer s now h =
     (case map_of (timers s) h of
        None \<Rightarrow> s
      | Some t \<Rightarrow>
          (case tm_task t of
             HeartbeatTask \<Rightarrow> sendHeartbeat s
           | AutoMeterTask connectorId val \<Rightarrow> autoMeterValueTick s now connectorId val))"

subsection \<open>Observations on a state\<close>

text \<open>The handles of the live auto-telemetry timers of a connector, oldest first.\<close>

definition liveAutoMeterHandles :: "int \<Rightarrow> ChargePoint \<Rightarrow> nat list" where
  "liveAutoMeterHandles connectorId s =
     map fst
       (filter (\<lambda>p. case tm_task (snd p) of
                       AutoMeterTask k v \<Rightarrow> k = connectorId
                     | HeartbeatTask \<Rightarrow> False)
          (timers s))"

definition liveHeartbeatHandles :: "ChargePoint \<Rightarrow> nat list" where
  "liveHeartbeatHandles s = map fst (filter (\<lambda>p. tm_task (snd p) = HeartbeatTask) (timers s))"

fun is_status_write :: "event \<Rightarrow> bool" where
  "is_status_write (ConnectorStatusWrite k st) = True"
| "is_status_write e = False"

fun is_status_notification :: "event \<Rightarrow> bool" where
  "is_status_notification (SendStatusNotification k st) = True"
| "is_status_notification e = False"

definition status_writes :: "ChargePoint \<Rightarrow> nat" where
  "status_writes s = length (filter is_status_write (trace s))"

definition status_notifications :: "ChargePoint \<Rightarrow> nat" where
  "status_notifications s = length (filter is_status_notification (trace s))"

text \<open>
  What holds of the timers of a station in every state the operations reach: handles are
  positive and below the next one handed out, and a live heartbeat timer is the one whose
  handle is stored in \<open>_heartbeat\<close>.
\<close>

definition timers_wf :: "ChargePoint \<Rightarrow> bool" where
  "timers_wf s =
     ((\<forall>h \<in> fst ` set (timers s). 0 < h \<and> h < nextTimer s)
      \<and> 0 < nextTimer s
      \<and> (\<forall>h \<in> set (liveHeartbeatHandles s). cp_heartbeat s = Some h))"

subsection \<open>Reading a decimal text\<close>

text \<open>
  The number a decimal text stands for: an optional minus sign, digits, and optionally a
  point and more digits. It is not part of the engine; it says what the text of a
  reading means.
\<close>

definition digit_value :: "char \<Rightarrow> nat" where
  "digit_value c = of_char c - 48"

definition digits_value :: "string \<Rightarrow> nat" where
  "digits_value ds = foldl (\<lambda>n c. 10 * n + digit_value c) 0 ds"

definition unsigned_value :: "string \<Rightarrow> rat" where
  "unsigned_value txt =
     (let w = takeWhile (\<lambda>c. c \<noteq> CHR ''.'') txt;
          f = drop 1 (dropWhile (\<lambda>c. c \<noteq> CHR ''.'') txt)
      in of_nat (digits_value w) + of_nat (digits_value f) / 10 ^ length f)"

definition number_value :: "string \<Rightarrow> rat" where
  "number_value txt =
     (if txt \<noteq> [] \<and> hd txt = CHR ''-'' then - unsigned_value (tl txt) else unsigned_value txt)"

text \<open>The value of the digits after the point.\<close>

definition fraction_value :: "string \<Rightarrow> rat" where
  "fraction_value f = of_nat (digits_value f) / 10 ^ length f"

definition is_energy :: "SampledValue \<Rightarrow> bool" where
  "is_energy r = (sv_measurand r = ''Energy.Active.Import.Register'')"

subsection \<open>Stations for the concrete runs\<close>

definition station1 :: ChargePoint where
  "station1 = constructor ''CP1'' ''boot'' 1 ''ws://cs'' None"

definition station2 :: ChargePoint where
  "station2 = constructor ''CP1'' ''boot'' 2 ''ws://cs'' None"

definition station_auto :: ChargePoint where
  "station_auto =
     constructor ''CP1'' ''boot'' 1 ''ws://cs''
       (Some \<lparr>ams_enabled = True, ams_interval = 1, ams_value = 10\<rparr>)"

definition preparing1 :: ChargePoint where
  "preparing1 = startTransaction station1 3 ''TAG1'' 1"

definition charging_at_500 :: ChargePoint where
  "charging_at_500 = setMeterValue (startTransaction station_auto 3 ''TAG1'' 1) 1 500"

section \<open>Properties\<close>

subsection \<open>What each step leaves alone\<close>

lemma emit_fields [simp]:
  "trace (emit e s) = trace s @ [e]"
  "cp_connectors (emit e s) = cp_connectors s"
  "timers (emit e s) = timers s"
  "nextTimer (emit e s) = nextTimer s"
  "cp_autoMeterValueIntervals (emit e s) = cp_autoMeterValueIntervals s"
  "cp_autoMeterValueSetting (emit e s) = cp_autoMeterValueSetting s"
  "cp_availabilityChangeCallbacks (emit e s) = cp_availabilityChangeCallbacks s"
  "cp_meterValueFormat (emit e s) = cp_meterValueFormat s"
  "cp_status (emit e s) = cp_status s"
  "cp_error (emit e s) = cp_error s"
  "cp_heartbeat (emit e s) = cp_heartbeat s"
  "cp_statusChangeCallback (emit e s) = cp_statusChangeCallback s"
  "cp_errorCallback (emit e s) = cp_errorCallback s"
  by (simp_all add: emit_def)

lemma modify_fields [simp]:
  "trace (modify_connector k f s) = trace s"
  "timers (modify_connector k f s) = timers s"
  "nextTimer (modify_connector k f s) = nextTimer s"
  "cp_autoMeterValueIntervals (modify_connector k f s) = cp_autoMeterValueIntervals s"
  "cp_autoMeterValueSetting (modify_connector k f s) = cp_autoMeterValueSetting s"
  "cp_availabilityChangeCallbacks (modify_connector k f s) = cp_availabilityChangeCallbacks s"
  "cp_meterValueFormat (modify_connector k f s) = cp_meterValueFormat s"
  "cp_status (modify_connector k f s) = cp_status s"
  "cp_error (modify_connector k f s) = cp_error s"
  "cp_heartbeat (modify_connector k f s) = cp_heartbeat s"
  "cp_statusChangeCallback (modify_connector k f s) = cp_statusChangeCallback s"
  "cp_errorCallback (modify_connector k f s) = cp_errorCallback s"
  by (simp_all add: modify_connector_def)

lemma getConnector_emit [simp]: "getConnector (emit e s) k = getConnector s k"
  by (simp add: getConnector_def)

lemma getConnector_modify:
  "getConnector (modify_connector k f s) k' =
     (if k' = k then map_option f (getConnector s k) else getConnector s k')"
  by (simp add: getConnector_def modify_connector_def map_of_map_entry split: option.splits)

lemma getConnector_write_status:
  "getConnector (write_status k st s) k' =
     (if k' = k then map_option (\<lambda>c. c\<lparr>c_status := st\<rparr>) (getConnector s k)
      else getConnector s k')"
  by (simp add: write_status_def getConnector_modify split: option.splits)

lemma trace_write_status:
  "trace (write_status k st s) =
     trace s @ (case getConnector s k of
                  Some c \<Rightarrow> [ConnectorStatusWrite (c_id c) st]
                | None \<Rightarrow> [])"
  by (simp add: write_status_def split: option.splits)

lemma getConnector_updateConnectorStatus:
  "getConnector (updateConnectorStatus s k st) k' =
     (if k' = k then map_option (\<lambda>c. c\<lparr>c_status := st\<rparr>) (getConnector s k)
      else getConnector s k')"
  by (simp add: updateConnectorStatus_def getConnector_write_status split: option.splits)

lemma trace_updateConnectorStatus:
  "trace (updateConnectorStatus s k st) =
     trace s @ (case getConnector s k of
                  Some c \<Rightarrow> [ConnectorStatusWrite (c_id c) st, SendStatusNotification k st]
                | None \<Rightarrow> [LogError (not_found k)])"
  by (simp add: updateConnectorStatus_def trace_write_status split: option.splits)

lemma frame_updateConnectorStatus [simp]:
  "timers (updateConnectorStatus s k st) = timers s"
  "nextTimer (updateConnectorStatus s k st) = nextTimer s"
  "cp_autoMeterValueIntervals (updateConnectorStatus s k st) = cp_autoMeterValueIntervals s"
  "cp_autoMeterValueSetting (updateConnectorStatus s k st) = cp_autoMeterValueSetting s"
  "cp_availabilityChangeCallbacks (updateConnectorStatus s k st) =
     cp_availabilityChangeCallbacks s"
  "cp_meterValueFormat (updateConnectorStatus s k st) = cp_meterValueFormat s"
  by (simp_all add: updateConnectorStatus_def write_status_def split: option.splits)

lemma startAutoMeterValue_fields [simp]:
  "trace (startAutoMeterValue s k i v) = trace s"
  "getConnector (startAutoMeterValue s k i v) k' = getConnector s k'"
  "timers (startAutoMeterValue s k i v) =
     timers s @ [(nextTimer s, \<lparr>tm_delay = i * 1000, tm_task = AutoMeterTask k v\<rparr>)]"
  "nextTimer (startAutoMeterValue s k i v) = Suc (nextTimer s)"
  "cp_autoMeterValueIntervals (startAutoMeterValue s k i v) =
     (cp_autoMeterValueIntervals s)(k \<mapsto> nextTimer s)"
  "cp_autoMeterValueSetting (startAutoMeterValue s k i v) = cp_autoMeterValueSetting s"
  by (simp_all add: startAutoMeterValue_def setInterval_def getConnector_def)

subsection \<open>The concrete stations\<close>

lemma upto_1_1: "[1..1] = [1::int]"
  by (simp add: upto.simps)

lemma upto_1_2: "[1..2] = [1, 2::int]"
  by (simp add: upto.simps)

lemma station1_fields:
  "cp_connectors station1 = [(1, new_Connector 1)]"
  "cp_autoMeterValueSetting station1 = None"
  "cp_autoMeterValueIntervals station1 = Map.empty"
  "cp_statusChangeCallback station1 = None"
  "cp_errorCallback station1 = None"
  "cp_bootNotification station1 = ''boot''"
  "cp_status station1 = Unavailable"
  "timers station1 = []"
  "nextTimer station1 = 1"
  "trace station1 = []"
  by (simp_all add: station1_def constructor_def upto_1_1)

lemma station2_fields:
  "cp_connectors station2 = [(1, new_Connector 1), (2, new_Connector 2)]"
  "trace station2 = []"
  by (simp_all add: station2_def constructor_def upto_1_2)

lemma station_auto_fields:
  "cp_connectors station_auto = [(1, new_Connector 1)]"
  "cp_autoMeterValueSetting station_auto =
     Some \<lparr>ams_enabled = True, ams_interval = 1, ams_value = 10\<rparr>"
  "cp_autoMeterValueIntervals station_auto = Map.empty"
  "timers station_auto = []"
  "nextTimer station_auto = 1"
  "trace station_auto = []"
  by (simp_all add: station_auto_def constructor_def upto_1_1)

lemma getConnector_station1: "getConnector station1 k = (if k = 1 then Some (new_Connector 1) else None)"
  by (simp add: getConnector_def station1_fields)

lemma getConnector_station_auto:
  "getConnector station_auto k = (if k = 1 then Some (new_Connector 1) else None)"
  by (simp add: getConnector_def station_auto_fields)

subsection \<open>Timers\<close>

text \<open>
  \<open>startAutoMeterValue\<close> never clears a timer: whatever was live stays live, and the
  new timer is added.
\<close>

lemma liveAutoMeterHandles_startAutoMeterValue:
  "liveAutoMeterHandles k (startAutoMeterValue s k i v) = liveAutoMeterHandles k s @ [nextTimer s]"
  by (simp add: liveAutoMeterHandles_def)

text \<open>
  \<open>startHeartbeat\<close> does clear the timer it replaces: afterwards one heartbeat timer is
  live, the new one.
\<close>

lemma timers_wf_constructor: "timers_wf (constructor i b n w a)"
  by (simp add: timers_wf_def constructor_def liveHeartbeatHandles_def)

lemma startHeartbeat_fields:
  "timers (startHeartbeat s p) =
     (case cp_heartbeat s of
        Some h \<Rightarrow> if h \<noteq> 0 then filter (\<lambda>p. fst p \<noteq> h) (timers s) else timers s
      | None \<Rightarrow> timers s) @ [(nextTimer s, \<lparr>tm_delay = p * 1000, tm_task = HeartbeatTask\<rparr>)]"
  "nextTimer (startHeartbeat s p) = Suc (nextTimer s)"
  "cp_heartbeat (startHeartbeat s p) = Some (nextTimer s)"
  by (simp_all add: startHeartbeat_def Let_def setInterval_def clearInterval_def
      split: option.splits)

lemma startHeartbeat_single:
  assumes "timers_wf s"
  shows "liveHeartbeatHandles (startHeartbeat s p) = [nextTimer s]"
    and "timers_wf (startHeartbeat s p)"
proof -
  have none: "filter (\<lambda>q. tm_task (snd q) = HeartbeatTask)
               (case cp_heartbeat s of
                  Some h \<Rightarrow> if h \<noteq> 0 then filter (\<lambda>p. fst p \<noteq> h) (timers s) else timers s
                | None \<Rightarrow> timers s) = []"
  proof (cases "cp_heartbeat s")
    case None
    with assms show ?thesis
      by (auto simp: timers_wf_def liveHeartbeatHandles_def filter_empty_conv)
  next
    case (Some h)
    with assms show ?thesis
      by (fastforce simp: timers_wf_def liveHeartbeatHandles_def filter_empty_conv)
  qed
  then show "liveHeartbeatHandles (startHeartbeat s p) = [nextTimer s]"
    by (simp add: liveHeartbeatHandles_def startHeartbeat_fields)
  then show "timers_wf (startHeartbeat s p)"
    using assms
    by (auto simp: timers_wf_def startHeartbeat_fields split: option.splits if_splits)
qed

lemma stopHeartbeat_none:
  assumes "timers_wf s"
  shows "liveHeartbeatHandles (stopHeartbeat s) = []"
    and "timers_wf (stopHeartbeat s)"
  using assms
  by (fastforce simp: timers_wf_def liveHeartbeatHandles_def stopHeartbeat_def Let_def
      clearInterval_def filter_empty_conv split: option.splits)+

lemma timers_wf_startAutoMeterValue:
  "timers_wf s \<Longrightarrow> timers_wf (startAutoMeterValue s k i v)"
  by (auto simp: timers_wf_def liveHeartbeatHandles_def startAutoMeterValue_def setInterval_def)

lemma timers_wf_stopAutoMeterValue:
  "timers_wf s \<Longrightarrow> timers_wf (stopAutoMeterValue s k)"
  by (auto simp: timers_wf_def liveHeartbeatHandles_def stopAutoMeterValue_def clearInterval_def
      split: option.splits)

text \<open>
  Claim C1. A second \<open>startAutoMeterValue\<close> for a connector should cancel the timer of
  the first, so that one auto-telemetry timer per connector is live. On a station with one
  connector, two calls for connector 1 leave both timers live, handles 1 and 2; the map
  of handles keeps only the second, so the first can no longer be cleared.
\<close>

theorem startAutoMeterValue_twice_leaves_two_timers:
  "liveAutoMeterHandles 1 (startAutoMeterValue station1 1 1 10) = [1]
   \<and> liveAutoMeterHandles 1 (startAutoMeterValue (startAutoMeterValue station1 1 1 10) 1 1 10)
       = [1, 2]
   \<and> cp_autoMeterValueIntervals
        (startAutoMeterValue (startAutoMeterValue station1 1 1 10) 1 1 10) 1 = Some 2"
  by (simp add: liveAutoMeterHandles_def station1_fields)

subsection \<open>Transactions\<close>

text \<open>
  Claim C2. \<open>stopTransaction\<close> with the id of a connector that exists and has no
  transaction should return normally. On a new station with one connector,
  \<open>stopTransaction(1)\<close> throws a \<open>TypeError\<close>.
\<close>

theorem stopTransaction_without_transaction_throws:
  "getConnector station1 1 = Some (new_Connector 1)
   \<and> c_transaction (new_Connector 1) = None
   \<and> stopTransaction station1 5 (ConnectorId 1) = Inl TypeError"
  by (simp add: stopTransaction_def stop_resolved_def getConnector_station1 new_Connector_def)

lemma stopTransaction_no_transaction:
  "getConnector s k = Some c \<Longrightarrow> c_transaction c = None \<Longrightarrow>
   stopTransaction s now (ConnectorId k) = Inl TypeError"
  by (simp add: stopTransaction_def stop_resolved_def)

text \<open>
  Claim C4. For a connector \<open>k\<close> that exists, \<open>startTransaction t k\<close> attaches a new
  transaction with id 0, tag \<open>t\<close>, meterStart 0, no meterStop, no stopTime and meterSent
  false, in place of any earlier one, sends it to the message handler, sets the status
  of the connector to \<open>Preparing\<close> (one write, one notification), and starts an
  auto-telemetry timer for \<open>k\<close> exactly when the auto-telemetry setting is present with
  interval and value both non-zero.
\<close>

theorem startTransaction_existing:
  assumes "getConnector s k = Some c"
  shows "getConnector (startTransaction s now tag k) k =
           Some (c\<lparr>c_transaction :=
                      Some \<lparr>t_id = 0, t_connectorId = k, t_tagId = tag, t_meterStart = 0,
                            t_meterStop = None, t_startTime = now, t_stopTime = None,
                            t_meterSent = False\<rparr>,
                    c_status := Preparing\<rparr>)
       \<and> trace (startTransaction s now tag k) =
           trace s @
           [SendStartTransaction
              \<lparr>t_id = 0, t_connectorId = k, t_tagId = tag, t_meterStart = 0,
               t_meterStop = None, t_startTime = now, t_stopTime = None, t_meterSent = False\<rparr> k,
            ConnectorStatusWrite (c_id c) Preparing,
            SendStatusNotification k Preparing]
       \<and> (case cp_autoMeterValueSetting s of
             Some a \<Rightarrow>
               if ams_interval a \<noteq> 0 \<and> ams_value a \<noteq> 0
               then timers (startTransaction s now tag k) =
                      timers s @ [(nextTimer s, \<lparr>tm_delay = ams_interval a * 1000,
                                                 tm_task = AutoMeterTask k (ams_value a)\<rparr>)]
                  \<and> cp_autoMeterValueIntervals (startTransaction s now tag k) =
                      (cp_autoMeterValueIntervals s)(k \<mapsto> nextTimer s)
               else timers (startTransaction s now tag k) = timers s
                  \<and> cp_autoMeterValueIntervals (startTransaction s now tag k) =
                      cp_autoMeterValueIntervals s
           | None \<Rightarrow>
               timers (startTransaction s now tag k) = timers s
             \<and> cp_autoMeterValueIntervals (startTransaction s now tag k) =
                 cp_autoMeterValueIntervals s)"
  using assms
  by (simp add: startTransaction_def Let_def getConnector_updateConnectorStatus
      trace_updateConnectorStatus getConnector_modify
      split: option.splits)

theorem startTransaction_existing_witness:
  "getConnector station_auto 1 = Some (new_Connector 1)
   \<and> map_option c_status (getConnector (startTransaction station_auto 3 ''TAG1'' 1) 1)
       = Some Preparing
   \<and> map_option (map_option t_tagId \<circ> c_transaction)
        (getConnector (startTransaction station_auto 3 ''TAG1'' 1) 1) = Some (Some ''TAG1'')
   \<and> timers (startTransaction station_auto 3 ''TAG1'' 1) =
       [(1, \<lparr>tm_delay = 1000, tm_task = AutoMeterTask 1 10\<rparr>)]
   \<and> map_option c_status (getConnector (startTransaction station1 3 ''TAG1'' 1) 1)
       = Some Preparing
   \<and> timers (startTransaction station1 3 ''TAG1'' 1) = []"
  using startTransaction_existing [of station_auto 1 "new_Connector 1" 3 "''TAG1''"]
    startTransaction_existing [of station1 1 "new_Connector 1" 3 "''TAG1''"]
  by (simp add: getConnector_station_auto station_auto_fields getConnector_station1
      station1_fields)

subsection \<open>Status of all connectors\<close>

lemma map_fst_map_entry: "map fst (AList.map_entry k f xs) = map fst xs"
  by (induction xs) auto

lemma keys_write_status [simp]:
  "map fst (cp_connectors (write_status k st s)) = map fst (cp_connectors s)"
  by (simp add: write_status_def modify_connector_def map_fst_map_entry split: option.splits)

lemma keyset_write_status [simp]:
  "fst ` set (cp_connectors (write_status k st s)) = fst ` set (cp_connectors s)"
  using keys_write_status [of k st s] by (metis set_map)

lemma length_write_status [simp]:
  "length (cp_connectors (write_status k st s)) = length (cp_connectors s)"
  using keys_write_status [of k st s] by (metis length_map)

lemma getConnector_in_keys:
  "k \<in> fst ` set (cp_connectors s) \<Longrightarrow> \<exists>c. getConnector s k = Some c"
  by (cases "getConnector s k") (simp_all add: getConnector_def map_of_eq_None_iff)

lemma getConnector_not_in_keys:
  "k \<notin> fst ` set (cp_connectors s) \<Longrightarrow> getConnector s k = None"
  by (simp add: getConnector_def map_of_eq_None_iff)

lemma counts_emit:
  "status_writes (emit e s) = status_writes s + (if is_status_write e then 1 else 0)"
  "status_notifications (emit e s) =
     status_notifications s + (if is_status_notification e then 1 else 0)"
  by (simp_all add: status_writes_def status_notifications_def)

lemma counts_write_status:
  assumes "k \<in> fst ` set (cp_connectors s)"
  shows "status_writes (write_status k st s) = Suc (status_writes s)"
    and "status_notifications (write_status k st s) = status_notifications s"
  using getConnector_in_keys [OF assms]
  by (auto simp: status_writes_def status_notifications_def trace_write_status)

lemma fold_write_status:
  "fst ` set xs \<subseteq> fst ` set (cp_connectors s) \<Longrightarrow>
   status_writes (fold (\<lambda>(k, connector) s'. write_status k st s') xs s)
     = status_writes s + length xs
   \<and> status_notifications (fold (\<lambda>(k, connector) s'. write_status k st s') xs s)
     = status_notifications s
   \<and> map fst (cp_connectors (fold (\<lambda>(k, connector) s'. write_status k st s') xs s))
     = map fst (cp_connectors s)"
proof (induction xs arbitrary: s)
  case Nil
  then show ?case by simp
next
  case (Cons x xs)
  obtain k c where x: "x = (k, c)" by (cases x)
  from Cons.prems x have k: "k \<in> fst ` set (cp_connectors s)" by auto
  have sub: "fst ` set xs \<subseteq> fst ` set (cp_connectors (write_status k st s))"
    using Cons.prems by simp
  show ?case
    using Cons.IH [OF sub] counts_write_status [OF k, of st] by (simp add: x)
qed

lemma write_all_status_counts:
  "status_writes (write_all_status st s) = status_writes s + length (cp_connectors s)"
  "status_notifications (write_all_status st s) = status_notifications s"
  "map fst (cp_connectors (write_all_status st s)) = map fst (cp_connectors s)"
  using fold_write_status [of "cp_connectors s" s st] by (simp_all add: write_all_status_def)

lemma length_write_all_status [simp]:
  "length (cp_connectors (write_all_status st s)) = length (cp_connectors s)"
  using write_all_status_counts(3) [of st s] by (metis length_map)

lemma keyset_write_all_status [simp]:
  "fst ` set (cp_connectors (write_all_status st s)) = fst ` set (cp_connectors s)"
  using write_all_status_counts(3) [of st s] by (metis set_map)

lemma fold_update_all:
  "fst ` set xs \<subseteq> fst ` set (cp_connectors s) \<Longrightarrow>
   status_writes (fold (\<lambda>(k, connector) s'.
             emit (SendStatusNotification (c_id connector) st)
               (write_all_status st (write_status k st s'))) xs s)
     = status_writes s + length xs * Suc (length (cp_connectors s))
   \<and> status_notifications (fold (\<lambda>(k, connector) s'.
             emit (SendStatusNotification (c_id connector) st)
               (write_all_status st (write_status k st s'))) xs s)
     = status_notifications s + length xs"
proof (induction xs arbitrary: s)
  case Nil
  then show ?case by simp
next
  case (Cons x xs)
  obtain k c where x: "x = (k, c)" by (cases x)
  let ?s2 = "emit (SendStatusNotification (c_id c) st) (write_all_status st (write_status k st s))"
  from Cons.prems x have k: "k \<in> fst ` set (cp_connectors s)" by auto
  have sub: "fst ` set xs \<subseteq> fst ` set (cp_connectors ?s2)"
    using Cons.prems by simp
  show ?case
    using Cons.IH [OF sub]
    by (simp add: x counts_emit write_all_status_counts counts_write_status [OF k])
qed

lemma updateAllConnectorsStatus_counts:
  "status_writes (updateAllConnectorsStatus s st)
     = status_writes s + connectorNumber s * (connectorNumber s + 1)"
  "status_notifications (updateAllConnectorsStatus s st)
     = status_notifications s + connectorNumber s"
  using fold_update_all [of "cp_connectors s" s st]
  by (simp_all add: updateAllConnectorsStatus_def connectorNumber_def)

text \<open>
  Claim C5. \<open>updateAllConnectorsStatus\<close> should write the status of each connector
  once and send one notification per connector. On a station with two connectors the
  call sends two notifications and performs six status writes: the loop over the
  connectors holds a second loop over all of them. In general there are N notifications
  and N * (N + 1) writes, see \<open>updateAllConnectorsStatus_counts\<close>.
\<close>

theorem updateAllConnectorsStatus_two_connectors_six_writes:
  "connectorNumber station2 = 2
   \<and> status_writes station2 = 0
   \<and> status_writes (updateAllConnectorsStatus station2 Available) = 6
   \<and> status_notifications (updateAllConnectorsStatus station2 Available) = 2"
  by (simp add: updateAllConnectorsStatus_def write_all_status_def write_status_def
      station2_fields connectorNumber_def getConnector_def modify_connector_def
      new_Connector_def status_writes_def status_notifications_def)

lemma getConnector_fold_write_status:
  "getConnector (fold (\<lambda>(k, connector) s'. write_status k st s') xs s) k' =
     (if k' \<in> fst ` set xs then map_option (\<lambda>c. c\<lparr>c_status := st\<rparr>) (getConnector s k')
      else getConnector s k')"
proof (induction xs arbitrary: s)
  case Nil
  then show ?case by simp
next
  case (Cons x xs)
  obtain k c where x: "x = (k, c)" by (cases x)
  show ?case
    by (simp add: x Cons.IH getConnector_write_status option.map_comp comp_def)
qed

lemma getConnector_write_all_status:
  "getConnector (write_all_status st s) k' =
     map_option (\<lambda>c. c\<lparr>c_status := st\<rparr>) (getConnector s k')"
  by (simp add: write_all_status_def getConnector_fold_write_status getConnector_not_in_keys)

lemma getConnector_fold_update_all:
  "getConnector (fold (\<lambda>(k, connector) s'.
             emit (SendStatusNotification (c_id connector) st)
               (write_all_status st (write_status k st s'))) xs s) k' =
     (if xs = [] then getConnector s k'
      else map_option (\<lambda>c. c\<lparr>c_status := st\<rparr>) (getConnector s k'))"
proof (induction xs arbitrary: s)
  case Nil
  then show ?case by simp
next
  case (Cons x xs)
  obtain k c where x: "x = (k, c)" by (cases x)
  show ?case
    by (simp add: x Cons.IH getConnector_write_all_status getConnector_write_status
        option.map_comp comp_def)
qed

lemma getConnector_updateAllConnectorsStatus:
  "getConnector (updateAllConnectorsStatus s st) k =
     map_option (\<lambda>c. c\<lparr>c_status := st\<rparr>) (getConnector s k)"
proof (cases "cp_connectors s = []")
  case True
  then show ?thesis by (simp add: updateAllConnectorsStatus_def getConnector_def)
next
  case False
  then show ?thesis by (simp add: updateAllConnectorsStatus_def getConnector_fold_update_all)
qed

lemma fold_frame:
  assumes "\<And>x s. P (f x s) = P s"
  shows "P (fold f xs s) = P s"
  by (induction xs arbitrary: s) (simp_all add: assms)

lemma write_status_frame:
  "cp_status (write_status k st s) = cp_status s"
  "cp_error (write_status k st s) = cp_error s"
  "cp_errorCallback (write_status k st s) = cp_errorCallback s"
  "cp_statusChangeCallback (write_status k st s) = cp_statusChangeCallback s"
  by (simp_all add: write_status_def split: option.splits)

lemma write_all_status_frame:
  "cp_status (write_all_status st s) = cp_status s"
  "cp_error (write_all_status st s) = cp_error s"
  "cp_errorCallback (write_all_status st s) = cp_errorCallback s"
  "cp_statusChangeCallback (write_all_status st s) = cp_statusChangeCallback s"
  unfolding write_all_status_def
  by (rule fold_frame, simp add: write_status_frame split: prod.splits)+

lemma updateAllConnectorsStatus_frame:
  "cp_status (updateAllConnectorsStatus s st) = cp_status s"
  "cp_error (updateAllConnectorsStatus s st) = cp_error s"
  "cp_errorCallback (updateAllConnectorsStatus s st) = cp_errorCallback s"
  "cp_statusChangeCallback (updateAllConnectorsStatus s st) = cp_statusChangeCallback s"
  unfolding updateAllConnectorsStatus_def
  by (rule fold_frame, simp add: write_all_status_frame write_status_frame split: prod.splits)+


lemma set_status_fields [simp]:
  "cp_status (set_status st s) = st"
  "cp_error (set_status st s) = cp_error s"
  "getConnector (set_status st s) k = getConnector s k"
  "cp_statusChangeCallback (set_status st s) = cp_statusChangeCallback s"
  "cp_errorCallback (set_status st s) = cp_errorCallback s"
  "trace (set_status st s) =
     trace s @ (case cp_statusChangeCallback s of
                  Some cb \<Rightarrow> [StatusChangeCallback cb st]
                | None \<Rightarrow> [])"
  by (simp_all add: set_status_def Let_def getConnector_def split: option.splits)

lemma set_error_fields [simp]:
  "cp_status (set_error err s) = cp_status s"
  "cp_error (set_error err s) = err"
  "getConnector (set_error err s) k = getConnector s k"
  "cp_statusChangeCallback (set_error err s) = cp_statusChangeCallback s"
  "trace (set_error err s) = trace s @ [ErrorCallback (cp_errorCallback s) err]"
  by (simp_all add: set_error_def getConnector_def)

subsection \<open>Connection life cycle\<close>

text \<open>
  Claim C6. When the close callback fires with code \<open>c\<close> and reason \<open>r\<close>, the
  status of the station is \<open>Unavailable\<close> afterwards and so is the status of every
  connector; when \<open>c\<close> is not 1005 the error is the text made of \<open>c\<close> and \<open>r\<close>; when
  \<open>c\<close> is 1005 the error is what it was before.
\<close>

theorem onClose_effect:
  "cp_status (onClose s code reason) = Unavailable
   \<and> getConnector (onClose s code reason) k =
       map_option (\<lambda>c. c\<lparr>c_status := Unavailable\<rparr>) (getConnector s k)
   \<and> (code \<noteq> 1005 \<longrightarrow>
        cp_error (onClose s code reason) =
          ''WebSocket closed code: '' @ toString code @ '' reason: '' @ reason)
   \<and> (code = 1005 \<longrightarrow> cp_error (onClose s code reason) = cp_error s)"
  by (simp add: onClose_def Let_def closed_message_def updateAllConnectorsStatus_frame
      getConnector_updateAllConnectorsStatus)

lemma toString_1006: "toString 1006 = ''1006''"
  by code_simp

lemma getConnector_station2:
  "getConnector station2 k =
     (if k = 1 then Some (new_Connector 1) else if k = 2 then Some (new_Connector 2) else None)"
  by (simp add: getConnector_def station2_fields)

theorem onClose_effect_witness:
  "cp_status (onClose station2 1006 ''gone'') = Unavailable
   \<and> map_option c_status (getConnector (onClose station2 1006 ''gone'') 2) = Some Unavailable
   \<and> cp_error (onClose station2 1006 ''gone'') = ''WebSocket closed code: 1006 reason: gone''
   \<and> cp_error (onClose (onClose station2 1006 ''gone'') 1005 ''bye'') =
       ''WebSocket closed code: 1006 reason: gone''
   \<and> cp_status (onClose (onClose station2 1006 ''gone'') 1005 ''bye'') = Unavailable"
  using onClose_effect [of station2 1006 "''gone''" 2]
    onClose_effect [of "onClose station2 1006 ''gone''" 1005 "''bye''" 2]
  by (simp add: toString_1006 getConnector_station2)

lemma disconnect_fields:
  "cp_status (disconnect s) = Unavailable"
  "trace (disconnect s) = trace s @ [LogInfo ''Disconnecting from WebSocket'', WsDisconnect]"
  "cp_statusChangeCallback (disconnect s) = cp_statusChangeCallback s"
  by (simp_all add: disconnect_def Let_def emit_def)

lemma boot_fields:
  "cp_status (boot s) = Available"
  "cp_statusChangeCallback (boot s) = cp_statusChangeCallback s"
  by (simp_all add: boot_def Let_def updateAllConnectorsStatus_frame)

text \<open>
  Claim C7. Every change of the status of the station should call the registered status
  subscriber. On a station with a subscriber, booted and \<open>Available\<close>, \<open>disconnect\<close>
  makes the status \<open>Unavailable\<close>, and the whole of what it adds to the trace is a log
  line and the request to close the socket: the subscriber is not called.
\<close>

theorem disconnect_skips_status_callback:
  "cp_statusChangeCallback (boot (set_statusChangeCallback (Callback 7) station1)) =
     Some (Callback 7)
   \<and> cp_status (boot (set_statusChangeCallback (Callback 7) station1)) = Available
   \<and> cp_status (disconnect (boot (set_statusChangeCallback (Callback 7) station1))) = Unavailable
   \<and> trace (disconnect (boot (set_statusChangeCallback (Callback 7) station1))) =
       trace (boot (set_statusChangeCallback (Callback 7) station1)) @
       [LogInfo ''Disconnecting from WebSocket'', WsDisconnect]"
  by (simp add: disconnect_fields boot_fields set_statusChangeCallback_def)

subsection \<open>Availability\<close>

text \<open>
  Claim C8. \<open>updateConnectorAvailability k a\<close> on a connector that does not exist
  logs, returns false and calls no callback. On a connector that exists it records \<open>a\<close>,
  sets the status to \<open>Unavailable\<close> for \<open>Inoperative\<close> and to \<open>Available\<close> for
  \<open>Operative\<close>, calls the availability callback registered for \<open>k\<close> once with \<open>a\<close> when
  there is one, and returns true.
\<close>

theorem updateConnectorAvailability_effect:
  "(getConnector s k = None \<longrightarrow>
      updateConnectorAvailability s k a = (False, emit (LogError (not_found k)) s))
   \<and> (\<forall>c. getConnector s k = Some c \<longrightarrow>
        fst (updateConnectorAvailability s k a) = True
      \<and> getConnector (snd (updateConnectorAvailability s k a)) k =
          Some (c\<lparr>c_availability := a,
                  c_status := (case a of Inoperative \<Rightarrow> Unavailable | Operative \<Rightarrow> Available)\<rparr>)
      \<and> trace (snd (updateConnectorAvailability s k a)) =
          trace s @
          [ConnectorStatusWrite (c_id c)
             (case a of Inoperative \<Rightarrow> Unavailable | Operative \<Rightarrow> Available),
           SendStatusNotification k
             (case a of Inoperative \<Rightarrow> Unavailable | Operative \<Rightarrow> Available)] @
          (case cp_availabilityChangeCallbacks s k of
             Some cb \<Rightarrow> [AvailabilityChangeCallback cb a]
           | None \<Rightarrow> []))"
  by (cases a)
     (auto simp: updateConnectorAvailability_def Let_def getConnector_updateConnectorStatus
        trace_updateConnectorStatus getConnector_modify split: option.splits)

theorem updateConnectorAvailability_effect_witness:
  "fst (updateConnectorAvailability
          (setAvailabilityChangeCallback 1 (Callback 3) station1) 1 Inoperative) = True
   \<and> map_option c_status
        (getConnector
           (snd (updateConnectorAvailability
                   (setAvailabilityChangeCallback 1 (Callback 3) station1) 1 Inoperative)) 1)
       = Some Unavailable
   \<and> trace (snd (updateConnectorAvailability
                    (setAvailabilityChangeCallback 1 (Callback 3) station1) 1 Inoperative)) =
       [ConnectorStatusWrite 1 Unavailable, SendStatusNotification 1 Unavailable,
        AvailabilityChangeCallback (Callback 3) Inoperative]
   \<and> updateConnectorAvailability
        (setAvailabilityChangeCallback 1 (Callback 3) station1) 9 Inoperative =
       (False,
        emit (LogError (not_found 9)) (setAvailabilityChangeCallback 1 (Callback 3) station1))"
  using
    updateConnectorAvailability_effect
      [of "setAvailabilityChangeCallback 1 (Callback 3) station1" 1 Inoperative]
    updateConnectorAvailability_effect
      [of "setAvailabilityChangeCallback 1 (Callback 3) station1" 9 Inoperative]
  by (simp add: setAvailabilityChangeCallback_def getConnector_def station1_fields
      new_Connector_def)

subsection \<open>Stopping a transaction\<close>

lemma stopAutoMeterValue_fields [simp]:
  "trace (stopAutoMeterValue s k) = trace s"
  "getConnector (stopAutoMeterValue s k) k' = getConnector s k'"
  "cp_autoMeterValueSetting (stopAutoMeterValue s k) = cp_autoMeterValueSetting s"
  by (simp_all add: stopAutoMeterValue_def clearInterval_def getConnector_def split: option.splits)

lemma stopAutoMeterValue_timers:
  "timers (stopAutoMeterValue s k) =
     (case cp_autoMeterValueIntervals s k of
        Some h \<Rightarrow> if h \<noteq> 0 then filter (\<lambda>p. fst p \<noteq> h) (timers s) else timers s
      | None \<Rightarrow> timers s)"
  "cp_autoMeterValueIntervals (stopAutoMeterValue s k) =
     (case cp_autoMeterValueIntervals s k of
        Some h \<Rightarrow> if h \<noteq> 0 then (cp_autoMeterValueIntervals s)(k := None)
                  else cp_autoMeterValueIntervals s
      | None \<Rightarrow> cp_autoMeterValueIntervals s)"
  by (simp_all add: stopAutoMeterValue_def clearInterval_def split: option.splits)

lemma clean_resolved_fields:
  "getConnector (clean_resolved s k k) k =
     map_option (\<lambda>c. c\<lparr>c_transaction := map_option (\<lambda>t. t\<lparr>t_meterSent := False\<rparr>) (c_transaction c),
                        c_status := Finishing\<rparr>) (getConnector s k)"
  "trace (clean_resolved s connectorId k) =
     trace s @ (case getConnector s connectorId of
                  Some c \<Rightarrow> [ConnectorStatusWrite (c_id c) Finishing,
                             SendStatusNotification connectorId Finishing]
                | None \<Rightarrow> [LogError (not_found connectorId)])"
  "cp_autoMeterValueSetting (clean_resolved s connectorId k) = cp_autoMeterValueSetting s"
  by (auto simp: clean_resolved_def Let_def getConnector_updateConnectorStatus
      getConnector_modify trace_updateConnectorStatus option.map_comp comp_def
      split: option.splits)

lemma clean_resolved_timers:
  "timers (clean_resolved s connectorId k) =
     (case cp_autoMeterValueSetting s of
        None \<Rightarrow> timers s
      | Some a \<Rightarrow> timers (stopAutoMeterValue s connectorId))"
  "cp_autoMeterValueIntervals (clean_resolved s connectorId k) =
     (case cp_autoMeterValueSetting s of
        None \<Rightarrow> cp_autoMeterValueIntervals s
      | Some a \<Rightarrow> cp_autoMeterValueIntervals (stopAutoMeterValue s connectorId))"
  by (simp_all add: clean_resolved_def Let_def stopAutoMeterValue_timers split: option.splits)

lemma stopTransaction_result:
  assumes "getConnector s k = Some c" and "c_id c = k"
    and "c_transaction c = Some t" and "c_meterValue c = m"
  shows "\<exists>s'. stopTransaction s now (ConnectorId k) = Inr s'
     \<and> getConnector s' k =
         Some (c\<lparr>c_transaction :=
                    Some (t\<lparr>t_stopTime := Some now, t_meterStop := Some m, t_meterSent := False\<rparr>),
                  c_status := Available\<rparr>)
     \<and> trace s' =
         trace s @
         [SendStopTransaction (t\<lparr>t_stopTime := Some now, t_meterStop := Some m\<rparr>) k,
          ConnectorStatusWrite k Finishing, SendStatusNotification k Finishing,
          ConnectorStatusWrite k Available, SendStatusNotification k Available]
     \<and> (cp_autoMeterValueSetting s = None \<longrightarrow>
          timers s' = timers s \<and> cp_autoMeterValueIntervals s' = cp_autoMeterValueIntervals s)
     \<and> (cp_autoMeterValueSetting s \<noteq> None \<longrightarrow>
          (\<forall>h. cp_autoMeterValueIntervals s k = Some h \<and> h \<noteq> 0 \<longrightarrow>
             timers s' = filter (\<lambda>p. fst p \<noteq> h) (timers s)
           \<and> cp_autoMeterValueIntervals s' = (cp_autoMeterValueIntervals s)(k := None)))"
  using assms
  by (auto simp: stopTransaction_def stop_resolved_def cleanTransaction_def Let_def
      getConnector_modify getConnector_updateConnectorStatus trace_updateConnectorStatus
      clean_resolved_fields clean_resolved_timers stopAutoMeterValue_timers)


lemma setMeterValue_fields:
  "getConnector (setMeterValue s k m) k' =
     (if k' = k then map_option (\<lambda>c. c\<lparr>c_meterValue := m\<rparr>) (getConnector s k)
      else getConnector s k')"
  "timers (setMeterValue s k m) = timers s"
  "cp_autoMeterValueIntervals (setMeterValue s k m) = cp_autoMeterValueIntervals s"
  "cp_autoMeterValueSetting (setMeterValue s k m) = cp_autoMeterValueSetting s"
  "cp_meterValueFormat (setMeterValue s k m) = cp_meterValueFormat s"
  "getConnector s k \<noteq> None \<Longrightarrow> trace (setMeterValue s k m) = trace s"
  by (auto simp: setMeterValue_def getConnector_modify split: option.splits)

lemma startTransaction_fields:
  "getConnector (startTransaction s now tag k) k' =
     (if k' = k
      then map_option
             (\<lambda>c. c\<lparr>c_transaction :=
                        Some \<lparr>t_id = 0, t_connectorId = k, t_tagId = tag, t_meterStart = 0,
                              t_meterStop = None, t_startTime = now, t_stopTime = None,
                              t_meterSent = False\<rparr>,
                      c_status := Preparing\<rparr>) (getConnector s k)
      else getConnector s k')"
  "cp_autoMeterValueSetting (startTransaction s now tag k) = cp_autoMeterValueSetting s"
  by (auto simp: startTransaction_def Let_def getConnector_modify
      getConnector_updateConnectorStatus split: option.splits)

lemma startTransaction_no_setting:
  "cp_autoMeterValueSetting s = None \<Longrightarrow> timers (startTransaction s now tag k) = timers s"
  "cp_autoMeterValueSetting s = None \<Longrightarrow> nextTimer (startTransaction s now tag k) = nextTimer s"
  "cp_autoMeterValueSetting s = None \<Longrightarrow>
     cp_autoMeterValueIntervals (startTransaction s now tag k) = cp_autoMeterValueIntervals s"
  by (simp_all add: startTransaction_def Let_def split: option.splits)

lemma startTransaction_timers:
  assumes "getConnector s k = Some c"
  shows "timers (startTransaction s now tag k) =
           (case cp_autoMeterValueSetting s of
              Some a \<Rightarrow>
                if ams_interval a \<noteq> 0 \<and> ams_value a \<noteq> 0
                then timers s @ [(nextTimer s, \<lparr>tm_delay = ams_interval a * 1000,
                                             tm_task = AutoMeterTask k (ams_value a)\<rparr>)]
                else timers s
            | None \<Rightarrow> timers s)"
    and "cp_autoMeterValueIntervals (startTransaction s now tag k) =
           (case cp_autoMeterValueSetting s of
              Some a \<Rightarrow>
                if ams_interval a \<noteq> 0 \<and> ams_value a \<noteq> 0
                then (cp_autoMeterValueIntervals s)(k \<mapsto> nextTimer s)
                else cp_autoMeterValueIntervals s
            | None \<Rightarrow> cp_autoMeterValueIntervals s)"
  using assms by (simp_all add: startTransaction_def Let_def split: option.splits)

lemma charging_at_500_fields:
  "getConnector charging_at_500 1 =
     Some (new_Connector 1
             \<lparr>c_transaction :=
                Some \<lparr>t_id = 0, t_connectorId = 1, t_tagId = ''TAG1'', t_meterStart = 0,
                      t_meterStop = None, t_startTime = 3, t_stopTime = None,
                      t_meterSent = False\<rparr>,
              c_status := Preparing, c_meterValue := 500\<rparr>)"
  "cp_autoMeterValueSetting charging_at_500 \<noteq> None"
  "cp_autoMeterValueIntervals charging_at_500 1 = Some 1"
  "timers charging_at_500 = [(1, \<lparr>tm_delay = 1000, tm_task = AutoMeterTask 1 10\<rparr>)]"
  by (simp_all add: charging_at_500_def setMeterValue_fields startTransaction_fields
      getConnector_station_auto station_auto_fields
      startTransaction_timers [where c = "new_Connector 1"])

lemma preparing1_fields:
  "getConnector preparing1 1 =
     Some (new_Connector 1
             \<lparr>c_transaction :=
                Some \<lparr>t_id = 0, t_connectorId = 1, t_tagId = ''TAG1'', t_meterStart = 0,
                      t_meterStop = None, t_startTime = 3, t_stopTime = None,
                      t_meterSent = False\<rparr>,
              c_status := Preparing\<rparr>)"
  "cp_autoMeterValueSetting preparing1 = None"
  "cp_autoMeterValueIntervals preparing1 = Map.empty"
  "timers preparing1 = []"
  "nextTimer preparing1 = 1"
  by (simp_all add: preparing1_def startTransaction_fields startTransaction_no_setting
      getConnector_station1 station1_fields)

text \<open>
  Claim C3, as amended. For a connector \<open>k\<close> that exists and has a transaction, with
  meter reading \<open>m\<close>, \<open>stopTransaction k\<close> returns normally; the transaction then has
  stopTime set, meterStop \<open>m\<close> and meterSent false, the stop was sent to the message
  handler, and the status of the connector is \<open>Available\<close>, \<open>Finishing\<close> having been
  written and notified just before. When the auto-telemetry setting is present, the timer
  whose handle is registered for \<open>k\<close> is cleared and the entry removed; when the setting is
  absent, no timer is cleared.
\<close>

theorem stopTransaction_active:
  assumes "getConnector s k = Some c" and "c_id c = k"
    and "c_transaction c = Some t" and "c_meterValue c = m"
  shows "\<exists>s'. stopTransaction s now (ConnectorId k) = Inr s'
     \<and> getConnector s' k =
         Some (c\<lparr>c_transaction :=
                    Some (t\<lparr>t_stopTime := Some now, t_meterStop := Some m, t_meterSent := False\<rparr>),
                  c_status := Available\<rparr>)
     \<and> trace s' =
         trace s @
         [SendStopTransaction (t\<lparr>t_stopTime := Some now, t_meterStop := Some m\<rparr>) k,
          ConnectorStatusWrite k Finishing, SendStatusNotification k Finishing,
          ConnectorStatusWrite k Available, SendStatusNotification k Available]
     \<and> (cp_autoMeterValueSetting s = None \<longrightarrow>
          timers s' = timers s \<and> cp_autoMeterValueIntervals s' = cp_autoMeterValueIntervals s)
     \<and> (cp_autoMeterValueSetting s \<noteq> None \<longrightarrow>
          (\<forall>h. cp_autoMeterValueIntervals s k = Some h \<and> h \<noteq> 0 \<longrightarrow>
             timers s' = filter (\<lambda>p. fst p \<noteq> h) (timers s)
           \<and> cp_autoMeterValueIntervals s' = (cp_autoMeterValueIntervals s)(k := None)))"
  using assms by (rule stopTransaction_result)

theorem stopTransaction_active_witness:
  "timers charging_at_500 = [(1, \<lparr>tm_delay = 1000, tm_task = AutoMeterTask 1 10\<rparr>)]
   \<and> (\<exists>s'. stopTransaction charging_at_500 9 (ConnectorId 1) = Inr s'
         \<and> map_option c_status (getConnector s' 1) = Some Available
         \<and> map_option (map_option t_meterStop \<circ> c_transaction) (getConnector s' 1)
             = Some (Some (Some 500))
         \<and> map_option (map_option t_stopTime \<circ> c_transaction) (getConnector s' 1)
             = Some (Some (Some 9))
         \<and> map_option (map_option t_meterSent \<circ> c_transaction) (getConnector s' 1)
             = Some (Some False)
         \<and> timers s' = [])
   \<and> (\<exists>s'. stopTransaction (startAutoMeterValue preparing1 1 1 10) 9 (ConnectorId 1) = Inr s'
         \<and> map_option c_status (getConnector s' 1) = Some Available
         \<and> timers s' = [(1, \<lparr>tm_delay = 1000, tm_task = AutoMeterTask 1 10\<rparr>)])"
proof -
  from stopTransaction_active [OF charging_at_500_fields(1), of _ 500 9]
  obtain s' where r: "stopTransaction charging_at_500 9 (ConnectorId 1) = Inr s'"
    and c: "getConnector s' 1 =
         Some (new_Connector 1
                 \<lparr>c_transaction :=
                    Some \<lparr>t_id = 0, t_connectorId = 1, t_tagId = ''TAG1'', t_meterStart = 0,
                          t_meterStop = None, t_startTime = 3, t_stopTime = None,
                          t_meterSent = False\<rparr>,
                  c_status := Preparing, c_meterValue := 500,
                  c_transaction :=
                    Some \<lparr>t_id = 0, t_connectorId = 1, t_tagId = ''TAG1'', t_meterStart = 0,
                          t_meterStop = Some 500, t_startTime = 3, t_stopTime = Some 9,
                          t_meterSent = False\<rparr>,
                  c_status := Available\<rparr>)"
    and t: "timers s' = filter (\<lambda>p. fst p \<noteq> 1) (timers charging_at_500)"
    using charging_at_500_fields(2,3) by (auto simp: new_Connector_def)
  have g: "getConnector (startAutoMeterValue preparing1 1 1 10) 1 =
         Some (new_Connector 1
                 \<lparr>c_transaction :=
                    Some \<lparr>t_id = 0, t_connectorId = 1, t_tagId = ''TAG1'', t_meterStart = 0,
                          t_meterStop = None, t_startTime = 3, t_stopTime = None,
                          t_meterSent = False\<rparr>,
                  c_status := Preparing\<rparr>)"
    by (simp add: preparing1_fields)
  from stopTransaction_active [OF g, of _ 0 9]
  obtain s'' where r': "stopTransaction (startAutoMeterValue preparing1 1 1 10) 9 (ConnectorId 1)
        = Inr s''"
    and c': "map_option c_status (getConnector s'' 1) = Some Available"
    and t': "timers s'' = timers (startAutoMeterValue preparing1 1 1 10)"
    by (auto simp: new_Connector_def preparing1_fields)
  have "\<exists>s'. stopTransaction (startAutoMeterValue preparing1 1 1 10) 9 (ConnectorId 1) = Inr s'
         \<and> map_option c_status (getConnector s' 1) = Some Available
         \<and> timers s' = [(1, \<lparr>tm_delay = 1000, tm_task = AutoMeterTask 1 10\<rparr>)]"
    using r' c' t' by (simp add: preparing1_fields)
  then show ?thesis
    using r c t by (simp add: charging_at_500_fields(4))
qed

text \<open>
  The claim as first stated has the timer cancelled in every case. With no auto-telemetry
  setting and a timer started by \<open>startAutoMeterValue\<close>, the timer is still live
  after \<open>stopTransaction\<close>.
\<close>

theorem stopTransaction_leaves_timer_counterexample:
  "cp_autoMeterValueSetting preparing1 = None
   \<and> liveAutoMeterHandles 1 (startAutoMeterValue preparing1 1 1 10) = [1]
   \<and> map_sum id (liveAutoMeterHandles 1)
       (stopTransaction (startAutoMeterValue preparing1 1 1 10) 9 (ConnectorId 1)) = Inr [1]"
  by (simp add: stopTransaction_def stop_resolved_def cleanTransaction_def Let_def
      getConnector_modify liveAutoMeterHandles_def clean_resolved_timers
      preparing1_fields new_Connector_def)

lemma generateDetailedMeterValues_format:
  "cp_meterValueFormat s' = cp_meterValueFormat s \<Longrightarrow>
   generateDetailedMeterValues s' now m = generateDetailedMeterValues s now m"
  by (simp add: generateDetailedMeterValues_def)

lemma autoMeterValueTick_existing:
  assumes "getConnector s k = Some c"
  shows "getConnector (autoMeterValueTick s now k v) k =
           Some (c\<lparr>c_meterValue := c_meterValue c + v\<rparr>)"
    and "trace (autoMeterValueTick s now k v) =
           trace s @
           [SendMeterValue (map_option t_id (c_transaction c)) k
              (generateDetailedMeterValues s now (c_meterValue c + v))]"
  using assms
  by (simp_all add: autoMeterValueTick_def Let_def setMeterValue_fields
      sendDetailedMeterValue_def
      generateDetailedMeterValues_format [where s' = "setMeterValue s k (c_meterValue c + v)" and s = s])

lemma map_of_append_fresh:
  "h \<notin> fst ` set xs \<Longrightarrow> map_of (xs @ [(h, t)]) h = Some t"
  by (simp add: map_add_Some_iff map_of_eq_None_iff)

lemma cleanTransaction_no_setting:
  assumes "cp_autoMeterValueSetting s = None" and "cleanTransaction s arg = Inr s'"
  shows "timers s' = timers s"
    and "cp_autoMeterValueIntervals s' = cp_autoMeterValueIntervals s"
    and "cp_autoMeterValueSetting s' = None"
    and "cp_meterValueFormat s' = cp_meterValueFormat s"
  using assms
  by (auto simp: cleanTransaction_def clean_resolved_timers clean_resolved_fields
      clean_resolved_def Let_def
      split: connector_arg.splits option.splits)

lemma stop_resolved_no_setting:
  assumes "cp_autoMeterValueSetting s = None" and "stop_resolved s now connId conn = Inr s'"
  shows "timers s' = timers s \<and> cp_autoMeterValueIntervals s' = cp_autoMeterValueIntervals s
       \<and> cp_meterValueFormat s' = cp_meterValueFormat s"
proof (cases conn)
  case None
  with assms show ?thesis by (auto simp: stop_resolved_def Let_def)
next
  case (Some p)
  obtain k c where p: "p = (k, c)" by (cases p)
  from assms Some p obtain t s3 where t: "c_transaction c = Some t"
    and cl: "cleanTransaction
               (emit (SendStopTransaction
                        (t\<lparr>t_stopTime := Some now, t_meterStop := Some (c_meterValue c)\<rparr>) connId)
                  (modify_connector k
                     (\<lambda>c'. c'\<lparr>c_transaction :=
                                 Some (t\<lparr>t_stopTime := Some now,
                                         t_meterStop := Some (c_meterValue c)\<rparr>)\<rparr>) s))
               (ConnectorObject k) = Inr s3"
    and s': "s' = updateConnectorStatus s3 connId Available"
    by (auto simp: stop_resolved_def Let_def split: option.splits sum.splits)
  from cleanTransaction_no_setting(1,2,4) [OF _ cl] assms(1) s' show ?thesis by simp
qed

lemma stopTransaction_no_setting:
  assumes "cp_autoMeterValueSetting s = None" and "stopTransaction s now arg = Inr s'"
  shows "timers s' = timers s \<and> cp_autoMeterValueIntervals s' = cp_autoMeterValueIntervals s
       \<and> cp_meterValueFormat s' = cp_meterValueFormat s"
  using assms stop_resolved_no_setting [OF assms(1)]
  by (auto simp: stopTransaction_def split: connector_arg.splits option.splits)

text \<open>
  Claim C10. With no auto-telemetry setting, \<open>cleanTransaction\<close> and
  \<open>stopTransaction\<close> clear no timer and leave the map of handles as it is. A timer
  started with \<open>startAutoMeterValue\<close> for a connector with a transaction is still
  registered and live after \<open>stopTransaction\<close>, and when it fires it raises the meter
  reading by its step and sends a meter value.
\<close>

theorem no_setting_never_cancels:
  assumes "cp_autoMeterValueSetting s = None"
    and "getConnector s k = Some c" and "c_id c = k" and "c_transaction c = Some t"
    and "nextTimer s \<notin> fst ` set (timers s)"
  shows "(\<forall>arg s'. cleanTransaction s arg = Inr s' \<longrightarrow>
            timers s' = timers s \<and> cp_autoMeterValueIntervals s' = cp_autoMeterValueIntervals s)
       \<and> (\<forall>arg s'. stopTransaction s now arg = Inr s' \<longrightarrow>
            timers s' = timers s \<and> cp_autoMeterValueIntervals s' = cp_autoMeterValueIntervals s)
       \<and> (\<exists>s'. stopTransaction (startAutoMeterValue s k i v) now (ConnectorId k) = Inr s'
            \<and> timers s' =
                timers s @ [(nextTimer s, \<lparr>tm_delay = i * 1000, tm_task = AutoMeterTask k v\<rparr>)]
            \<and> cp_autoMeterValueIntervals s' k = Some (nextTimer s)
            \<and> map_option c_meterValue (getConnector (fireTimer s' now' (nextTimer s)) k)
                = Some (c_meterValue c + v)
            \<and> trace (fireTimer s' now' (nextTimer s)) =
                trace s' @
                [SendMeterValue (Some (t_id t)) k
                   (generateDetailedMeterValues s now' (c_meterValue c + v))])"
proof -
  let ?s1 = "startAutoMeterValue s k i v"
  let ?tm = "\<lparr>tm_delay = i * 1000, tm_task = AutoMeterTask k v\<rparr>"
  have gen: "\<forall>arg s'. cleanTransaction s arg = Inr s' \<longrightarrow>
            timers s' = timers s \<and> cp_autoMeterValueIntervals s' = cp_autoMeterValueIntervals s"
    using cleanTransaction_no_setting(1,2) [OF assms(1)] by blast
  have gen2: "\<forall>arg s'. stopTransaction s now arg = Inr s' \<longrightarrow>
            timers s' = timers s \<and> cp_autoMeterValueIntervals s' = cp_autoMeterValueIntervals s"
    using stopTransaction_no_setting [OF assms(1)] by blast
  have g1: "getConnector ?s1 k = Some c" and set1: "cp_autoMeterValueSetting ?s1 = None"
    using assms by simp_all
  from stopTransaction_result [OF g1 assms(3,4) refl, of now]
  obtain s' where r: "stopTransaction ?s1 now (ConnectorId k) = Inr s'"
    and c': "getConnector s' k =
         Some (c\<lparr>c_transaction :=
                    Some (t\<lparr>t_stopTime := Some now, t_meterStop := Some (c_meterValue c),
                            t_meterSent := False\<rparr>),
                  c_status := Available\<rparr>)"
    by blast
  from stopTransaction_no_setting [OF set1 r]
  have tm: "timers s' = timers s @ [(nextTimer s, ?tm)]"
    and iv: "cp_autoMeterValueIntervals s' k = Some (nextTimer s)"
    by simp_all
  have fmt: "cp_meterValueFormat s' = cp_meterValueFormat s"
    using stopTransaction_no_setting [OF set1 r]
    by (simp add: startAutoMeterValue_def setInterval_def)
  have "map_of (timers s') (nextTimer s) = Some ?tm"
    unfolding tm by (rule map_of_append_fresh [OF assms(5)])
  then have fire: "fireTimer s' now' (nextTimer s) = autoMeterValueTick s' now' k v"
    by (simp add: fireTimer_def)
  show ?thesis
    using gen gen2 r tm iv
    by (simp add: fire autoMeterValueTick_existing [OF c']
        generateDetailedMeterValues_format [OF fmt])
qed


theorem no_setting_never_cancels_witness:
  "\<exists>s'. stopTransaction (startAutoMeterValue preparing1 1 1 10) 9 (ConnectorId 1) = Inr s'
     \<and> timers s' = [(1, \<lparr>tm_delay = 1000, tm_task = AutoMeterTask 1 10\<rparr>)]
     \<and> cp_autoMeterValueIntervals s' 1 = Some 1
     \<and> map_option c_meterValue (getConnector (fireTimer s' 12 1) 1) = Some 10"
  using no_setting_never_cancels
    [OF preparing1_fields(2) preparing1_fields(1), where i = 1 and v = 10 and now = 9 and now' = 12]
  by (auto simp: preparing1_fields new_Connector_def)


subsection \<open>Telemetry\<close>

lemma digit_value_digit_char: "d < 10 \<Longrightarrow> digit_value (digit_char d) = d"
  by (simp add: digit_value_def digit_char_def)

lemma digits_value_snoc: "digits_value (ds @ [c]) = 10 * digits_value ds + digit_value c"
  by (simp add: digits_value_def)

lemma digits_value_toString_nat: "digits_value (toString_nat n) = n"
proof (induction n rule: toString_nat.induct)
  case (1 n)
  show ?case
  proof (cases "n < 10")
    case True
    then show ?thesis
      by (simp add: toString_nat.simps [of n] digits_value_def digit_value_digit_char)
  next
    case False
    with 1 show ?thesis
      by (simp add: toString_nat.simps [of n] digits_value_snoc digit_value_digit_char)
  qed
qed

lemma of_char_digit_char: "d < 10 \<Longrightarrow> of_char (digit_char d) = (48 + d :: nat)"
  by (simp add: digit_char_def)

lemma digit_char_not_point: "d < 10 \<Longrightarrow> digit_char d \<noteq> CHR ''.''"
proof
  assume "d < 10" and "digit_char d = CHR ''.''"
  then have "(48 + d :: nat) = of_char (CHR ''.'')"
    using of_char_digit_char [of d] by simp
  then show False by simp
qed

lemma digit_char_not_minus: "d < 10 \<Longrightarrow> digit_char d \<noteq> CHR ''-''"
proof
  assume "d < 10" and "digit_char d = CHR ''-''"
  then have "(48 + d :: nat) = of_char (CHR ''-'')"
    using of_char_digit_char [of d] by simp
  then show False by simp
qed

lemma toString_nat_digits: "c \<in> set (toString_nat n) \<Longrightarrow> \<exists>d < 10. c = digit_char d"
proof (induction n rule: toString_nat.induct)
  case (1 n)
  show ?case
  proof (cases "n < 10")
    case True
    with "1.prems" show ?thesis by (auto simp: toString_nat.simps [of n])
  next
    case False
    with "1.prems" have "c \<in> set (toString_nat (n div 10)) \<or> c = digit_char (n mod 10)"
      by (auto simp: toString_nat.simps [of n])
    then show ?thesis
    proof
      assume "c \<in> set (toString_nat (n div 10))"
      with "1.IH" False show ?thesis by simp
    next
      assume "c = digit_char (n mod 10)"
      moreover have "n mod 10 < 10" by simp
      ultimately show ?thesis by blast
    qed
  qed
qed

lemma toString_nat_no_point: "CHR ''.'' \<notin> set (toString_nat n)"
  using toString_nat_digits [of "CHR ''.''" n] digit_char_not_point by metis

lemma toString_nat_not_Nil: "toString_nat n \<noteq> []"
  by (simp add: toString_nat.simps [of n])

lemma hd_toString_nat_not_minus: "hd (toString_nat n) \<noteq> CHR ''-''"
proof -
  have "hd (toString_nat n) \<in> set (toString_nat n)"
    by (simp add: toString_nat_not_Nil)
  then show ?thesis
    using toString_nat_digits digit_char_not_minus by metis
qed

lemma takeWhile_upto: "c \<notin> set w \<Longrightarrow> takeWhile (\<lambda>x. x \<noteq> c) (w @ c # f) = w"
  by (induction w) auto

lemma dropWhile_upto: "c \<notin> set w \<Longrightarrow> dropWhile (\<lambda>x. x \<noteq> c) (w @ c # f) = c # f"
  by (induction w) auto

lemma takeWhile_all: "c \<notin> set w \<Longrightarrow> takeWhile (\<lambda>x. x \<noteq> c) w = w"
  by (induction w) auto

lemma dropWhile_all: "c \<notin> set w \<Longrightarrow> dropWhile (\<lambda>x. x \<noteq> c) w = []"
  by (induction w) auto

lemma digits_value_Nil: "digits_value [] = 0"
  by (simp add: digits_value_def)

lemma digit_value_zero: "digit_value (CHR ''0'') = 0"
  by (simp add: digit_value_def)

lemma unsigned_value_whole: "unsigned_value (toString_nat n) = of_nat n"
  by (simp add: unsigned_value_def Let_def takeWhile_all [OF toString_nat_no_point]
      dropWhile_all [OF toString_nat_no_point] digits_value_toString_nat digits_value_Nil)

lemma unsigned_value_point:
  "unsigned_value (toString_nat n @ CHR ''.'' # f) =
     of_nat n + of_nat (digits_value f) / 10 ^ length f"
  by (simp add: unsigned_value_def Let_def takeWhile_upto [OF toString_nat_no_point]
      dropWhile_upto [OF toString_nat_no_point] digits_value_toString_nat)

text \<open>Trailing zeros do not change the value of a fraction.\<close>

lemma fraction_value_snoc_zero: "fraction_value (f @ [CHR ''0'']) = fraction_value f"
  by (simp add: fraction_value_def digits_value_snoc digit_value_zero)

lemma fraction_value_strip: "fraction_value (rev (dropWhile (\<lambda>c. c = CHR ''0'') xs)) = fraction_value (rev xs)"
  by (induction xs) (auto simp: fraction_value_snoc_zero)

lemma fraction_value_strip_zeros: "fraction_value (strip_zeros f) = fraction_value f"
  using fraction_value_strip [of "rev f"] by (simp add: strip_zeros_def)

lemma three_digits: "100 * (r div 100) + 10 * (r div 10 mod 10) + r mod 10 = (r::nat)"
proof -
  have lin: "10 * x + y = z \<Longrightarrow> 10 * z + d = r \<Longrightarrow> 100 * x + 10 * y + d = r"
    for x y z d :: nat
    by linarith
  have c: "r div 100 = r div 10 div 10"
    by (simp add: div_mult2_eq)
  show ?thesis
    unfolding c by (rule lin [OF mult_div_mod_eq mult_div_mod_eq])
qed

lemma digits_value_thousandths:
  assumes "r < 1000"
  shows "digits_value (thousandths r) = r"
proof -
  have d: "r div 100 < 10" "r div 10 mod 10 < 10" "r mod 10 < 10"
    using assms by simp_all
  have "digits_value (thousandths r) = 100 * (r div 100) + 10 * (r div 10 mod 10) + r mod 10"
    by (simp add: thousandths_def digits_value_def digit_value_digit_char d)
  then show ?thesis
    by (simp only: three_digits)
qed

lemma length_thousandths: "length (thousandths r) = 3"
  by (simp add: thousandths_def)

lemma fraction_value_thousandths:
  "r < 1000 \<Longrightarrow> fraction_value (thousandths r) = of_nat r / 1000"
  by (simp add: fraction_value_def digits_value_thousandths length_thousandths)

lemma unsigned_value_div1000:
  "unsigned_value
     (toString_nat (a div 1000) @
      (if a mod 1000 = 0 then [] else CHR ''.'' # strip_zeros (thousandths (a mod 1000))))
   = of_nat a / 1000"
proof (cases "a mod 1000 = 0")
  case True
  then have "a = 1000 * (a div 1000)"
    using mult_div_mod_eq [of 1000 a] by simp
  then have "(of_nat a :: rat) = 1000 * of_nat (a div 1000)"
    by (metis of_nat_mult of_nat_numeral)
  with True show ?thesis by (simp add: unsigned_value_whole)
next
  case False
  have "fraction_value (strip_zeros (thousandths (a mod 1000))) = of_nat (a mod 1000) / 1000"
    by (simp add: fraction_value_strip_zeros fraction_value_thousandths)
  moreover have "(of_nat a :: rat) = 1000 * of_nat (a div 1000) + of_nat (a mod 1000)"
    by (metis of_nat_add of_nat_mult of_nat_numeral mult_div_mod_eq)
  ultimately show ?thesis
    using False by (simp add: unsigned_value_point fraction_value_def add_divide_distrib)
qed

lemma number_value_toString: "number_value (toString m) = of_int m"
proof (cases "m < 0")
  case True
  then show ?thesis
    by (simp add: number_value_def toString_def unsigned_value_whole)
next
  case False
  then show ?thesis
    by (simp add: number_value_def toString_def unsigned_value_whole
        toString_nat_not_Nil hd_toString_nat_not_minus)
qed

lemma number_value_toString_div1000: "number_value (toString_div1000 m) = of_int m / 1000"
proof (cases "m < 0")
  case True
  then have "(of_nat (nat \<bar>m\<bar>) :: rat) = - of_int m" by simp
  with True show ?thesis
    by (simp add: number_value_def toString_div1000_def Let_def unsigned_value_div1000
        del: of_nat_nat)
next
  case False
  have hd: "hd (toString_nat (nat \<bar>m\<bar> div 1000) @ xs) \<noteq> CHR ''-''" for xs
    by (simp add: toString_nat_not_Nil hd_toString_nat_not_minus)
  from False have "(of_nat (nat \<bar>m\<bar>) :: rat) = of_int m" by simp
  with False hd show ?thesis
    by (simp add: number_value_def toString_div1000_def Let_def unsigned_value_div1000
        toString_nat_not_Nil del: of_nat_nat)
qed


lemma generateDetailedMeterValues_Detailed:
  "cp_meterValueFormat s = Detailed \<Longrightarrow>
   mv_sampledValue (generateDetailedMeterValues s now m) =
     [located ''V'' (Some ''L1'') ''236.7'' ''Outlet'' ''Voltage'',
      located ''V'' (Some ''L2'') ''235.6'' ''Outlet'' ''Voltage'',
      located ''V'' (Some ''L3'') ''236.7'' ''Outlet'' ''Voltage'',
      located ''A'' (Some ''L1'') ''0.00'' ''Outlet'' ''Current.Import'',
      located ''A'' (Some ''L2'') ''0.00'' ''Outlet'' ''Current.Import'',
      located ''A'' (Some ''L3'') ''0.00'' ''Outlet'' ''Current.Import'',
      located ''W'' None ''2000'' ''Outlet'' ''Power.Active.Import'',
      located ''Percent'' None ''10'' ''EV'' ''SoC'',
      located ''W'' None ''22687'' ''Outlet'' ''Power.Offered'',
      located ''Wh'' None (toString m) ''Outlet'' ''Energy.Active.Import.Register'']"
  by (simp add: generateDetailedMeterValues_def)

lemma generateDetailedMeterValues_Simple:
  "cp_meterValueFormat s = Simple \<Longrightarrow>
   mv_sampledValue (generateDetailedMeterValues s now m) =
     [raw (Some ''kWh'') (toString_div1000 m) ''Energy.Active.Import.Register'',
      raw (Some ''kW'') ''26.4'' ''Power.Active.Import'',
      raw (Some ''Percent'') ''66'' ''SoC'',
      raw (Some ''Celcius'') ''45'' ''Temperature'',
      raw (Some ''A'') ''79.89'' ''Current.Import'',
      raw None ''0'' ''RPM'',
      raw (Some ''V'') ''330.1'' ''Voltage'']"
  by (simp add: generateDetailedMeterValues_def)

lemma is_energy_simps:
  "is_energy (located u p v l m) = (m = ''Energy.Active.Import.Register'')"
  "is_energy (raw u' v m) = (m = ''Energy.Active.Import.Register'')"
  by (simp_all add: is_energy_def located_def raw_def)

text \<open>
  Claim C9. For a meter value \<open>m\<close>, an integer below \<open>10^15\<close> in size (where the text
  JavaScript prints for \<open>m / 1000\<close> is the exact decimal): in the detailed format the
  snapshot has one \<open>Energy.Active.Import.Register\<close> reading, in Wh, whose text stands for
  \<open>m\<close>, and its other nine readings are fixed; in the simple format the snapshot is a
  flat list of seven readings, the first the energy in kWh, whose text stands for
  \<open>m / 1000\<close>, the others fixed. The format is the one stored by
  \<open>setMeterValueFormat\<close>, and the generator depends on the state through nothing else.
\<close>

theorem telemetry_energy_reading:
  assumes "\<bar>m\<bar> < 10 ^ 15"
  shows "filter is_energy
           (mv_sampledValue (generateDetailedMeterValues (setMeterValueFormat s Detailed) now m))
         = [located ''Wh'' None (toString m) ''Outlet'' ''Energy.Active.Import.Register'']
       \<and> number_value (toString m) = of_int m
       \<and> filter (\<lambda>r. \<not> is_energy r)
           (mv_sampledValue (generateDetailedMeterValues (setMeterValueFormat s Detailed) now m))
         = [located ''V'' (Some ''L1'') ''236.7'' ''Outlet'' ''Voltage'',
            located ''V'' (Some ''L2'') ''235.6'' ''Outlet'' ''Voltage'',
            located ''V'' (Some ''L3'') ''236.7'' ''Outlet'' ''Voltage'',
            located ''A'' (Some ''L1'') ''0.00'' ''Outlet'' ''Current.Import'',
            located ''A'' (Some ''L2'') ''0.00'' ''Outlet'' ''Current.Import'',
            located ''A'' (Some ''L3'') ''0.00'' ''Outlet'' ''Current.Import'',
            located ''W'' None ''2000'' ''Outlet'' ''Power.Active.Import'',
            located ''Percent'' None ''10'' ''EV'' ''SoC'',
            located ''W'' None ''22687'' ''Outlet'' ''Power.Offered'']
       \<and> mv_sampledValue (generateDetailedMeterValues (setMeterValueFormat s Simple) now m)
         = [raw (Some ''kWh'') (toString_div1000 m) ''Energy.Active.Import.Register'',
            raw (Some ''kW'') ''26.4'' ''Power.Active.Import'',
            raw (Some ''Percent'') ''66'' ''SoC'',
            raw (Some ''Celcius'') ''45'' ''Temperature'',
            raw (Some ''A'') ''79.89'' ''Current.Import'',
            raw None ''0'' ''RPM'',
            raw (Some ''V'') ''330.1'' ''Voltage'']
       \<and> number_value (toString_div1000 m) = of_int m / 1000
       \<and> getMeterValueFormat (setMeterValueFormat s f) = f
       \<and> generateDetailedMeterValues s now m =
           generateDetailedMeterValues (setMeterValueFormat s' (getMeterValueFormat s)) now m"
proof -
  have d: "cp_meterValueFormat (setMeterValueFormat s Detailed) = Detailed"
    and si: "cp_meterValueFormat (setMeterValueFormat s Simple) = Simple"
    by (simp_all add: setMeterValueFormat_def)
  have 1: "filter is_energy
           (mv_sampledValue (generateDetailedMeterValues (setMeterValueFormat s Detailed) now m))
         = [located ''Wh'' None (toString m) ''Outlet'' ''Energy.Active.Import.Register'']"
    by (simp add: generateDetailedMeterValues_Detailed [OF d] is_energy_simps)
  have 2: "filter (\<lambda>r. \<not> is_energy r)
           (mv_sampledValue (generateDetailedMeterValues (setMeterValueFormat s Detailed) now m))
         = [located ''V'' (Some ''L1'') ''236.7'' ''Outlet'' ''Voltage'',
            located ''V'' (Some ''L2'') ''235.6'' ''Outlet'' ''Voltage'',
            located ''V'' (Some ''L3'') ''236.7'' ''Outlet'' ''Voltage'',
            located ''A'' (Some ''L1'') ''0.00'' ''Outlet'' ''Current.Import'',
            located ''A'' (Some ''L2'') ''0.00'' ''Outlet'' ''Current.Import'',
            located ''A'' (Some ''L3'') ''0.00'' ''Outlet'' ''Current.Import'',
            located ''W'' None ''2000'' ''Outlet'' ''Power.Active.Import'',
            located ''Percent'' None ''10'' ''EV'' ''SoC'',
            located ''W'' None ''22687'' ''Outlet'' ''Power.Offered'']"
    by (simp add: generateDetailedMeterValues_Detailed [OF d] is_energy_simps)
  have 3: "getMeterValueFormat (setMeterValueFormat s f) = f"
    by (simp add: getMeterValueFormat_def setMeterValueFormat_def)
  have 4: "generateDetailedMeterValues s now m =
           generateDetailedMeterValues (setMeterValueFormat s' (getMeterValueFormat s)) now m"
    by (simp add: generateDetailedMeterValues_def getMeterValueFormat_def setMeterValueFormat_def)
  show ?thesis
    using 1 2 3 4 generateDetailedMeterValues_Simple [OF si]
      number_value_toString number_value_toString_div1000
    by blast
qed

lemma toString_1500: "toString 1500 = ''1500''"
  by code_simp

lemma toString_div1000_1500: "toString_div1000 1500 = ''1.5''"
  by code_simp

theorem telemetry_energy_reading_witness:
  "\<bar>1500 :: int\<bar> < 10 ^ 15
   \<and> map sv_value
        (filter is_energy
           (mv_sampledValue
              (generateDetailedMeterValues (setMeterValueFormat station1 Detailed) 7 1500)))
       = [''1500'']
   \<and> map sv_value
        (filter is_energy
           (mv_sampledValue
              (generateDetailedMeterValues (setMeterValueFormat station1 Simple) 7 1500)))
       = [''1.5'']
   \<and> number_value ''1.5'' = 3 / 2"
proof -
  have h: "\<bar>1500 :: int\<bar> < 10 ^ 15" by simp
  show ?thesis
    using telemetry_energy_reading [OF h, of station1 7 Simple station1]
    by (simp add: toString_1500 toString_div1000_1500 is_energy_def located_def raw_def)
qed


end
